theory Spec2Isabelle
  imports Complex_Main "HOL-Library.Multiset"
begin

section \<open>Numbers\<close>

text \<open>
  JavaScript numbers are IEEE 754 double-precision values. They are modelled as real
  numbers, and \<^verbatim>\<open>NaN\<close> has no counterpart. Rounding is modelled where a result of the
  program depends on more than its last bits: in the cubic bezier bound, where a rounded
  coefficient decides which roots exist, every arithmetic operation is followed by the
  rounding \<open>double\<close> below. Everywhere else the operations are the exact ones. Where the
  source starts a running minimum or maximum at \<^verbatim>\<open>Infinity\<close> or \<^verbatim>\<open>-Infinity\<close>, the
  accumulator has type \<open>num\<close>, the reals extended by the two infinities, ordered as
  \<^verbatim>\<open>Math.min\<close> and \<^verbatim>\<open>Math.max\<close> order them.
\<close>

datatype num = MInf | Fin real | PInf

instantiation num :: linorder
begin

fun less_eq_num :: "num \<Rightarrow> num \<Rightarrow> bool" where
  "less_eq_num MInf _ = True"
| "less_eq_num (Fin a) MInf = False"
| "less_eq_num (Fin a) (Fin b) = (a \<le> b)"
| "less_eq_num (Fin a) PInf = True"
| "less_eq_num PInf PInf = True"
| "less_eq_num PInf _ = False"

definition less_num :: "num \<Rightarrow> num \<Rightarrow> bool" where
  "less_num a b \<longleftrightarrow> a \<le> b \<and> \<not> b \<le> a"

instance
proof
  fix a b c :: num
  show "(a < b) = (a \<le> b \<and> \<not> b \<le> a)"
    by (simp add: less_num_def)
  show "a \<le> a"
    by (cases a) simp_all
  show "a \<le> b \<Longrightarrow> b \<le> c \<Longrightarrow> a \<le> c"
    by (cases a; cases b; cases c) simp_all
  show "a \<le> b \<Longrightarrow> b \<le> a \<Longrightarrow> a = b"
    by (cases a; cases b) simp_all
  show "a \<le> b \<or> b \<le> a"
    by (cases a; cases b) auto
qed

end

text \<open>\<^verbatim>\<open>v + d\<close> for an accumulator \<open>v\<close> and a finite \<open>d\<close>: an infinity stays what it is.\<close>

fun addFin :: "num \<Rightarrow> real \<Rightarrow> num" where
  "addFin (Fin a) d = Fin (a + d)"
| "addFin MInf d = MInf"
| "addFin PInf d = PInf"

type_synonym Point = "real \<times> real"

text \<open>\<^verbatim>\<open>Bounds = [minX, minY, maxX, maxY]\<close>.\<close>

type_synonym Bounds = "num \<times> num \<times> num \<times> num"

subsection \<open>Rounding\<close>

text \<open>
  \<open>double x\<close> is the double nearest to the real \<open>x\<close>: \<open>x\<close> is rounded to 53 significant
  bits, to the nearest value, and to the one with an even last bit when two are equally
  near. \<open>ulp\<close> is the distance of neighbouring doubles at the magnitude of \<open>x\<close>. The exponent
  is not bounded: overflow to an infinity and gradual underflow are not modelled, and
  \<^verbatim>\<open>-0\<close> is 0.
\<close>

definition roundTiesToEven :: "real \<Rightarrow> int" where
  "roundTiesToEven y =
     (let f = \<lfloor>y\<rfloor>; d = y - of_int f
      in if d < 1 / 2 then f else if 1 / 2 < d then f + 1 else if even f then f else f + 1)"

definition double :: "real \<Rightarrow> real" where
  "double x =
     (if x = 0 then 0
      else let ulp = 2 powr of_int (\<lfloor>log 2 \<bar>x\<bar>\<rfloor> - 52)
           in of_int (roundTiesToEven (x / ulp)) * ulp)"

text \<open>
  The operations \<^verbatim>\<open>+\<close>, \<^verbatim>\<open>-\<close>, \<^verbatim>\<open>*\<close>, \<^verbatim>\<open>/\<close>, \<^verbatim>\<open>Math.sqrt\<close> and \<^verbatim>\<open>Math.pow\<close> with a
  small integer exponent, on doubles: the exact result, rounded. (The language leaves the
  precision of \<^verbatim>\<open>Math.sqrt\<close> and \<^verbatim>\<open>Math.pow\<close> to the implementation; they are taken as
  correctly rounded.) The unary minus is exact.
\<close>

definition fadd :: "real \<Rightarrow> real \<Rightarrow> real" where
  "fadd x y = double (x + y)"

definition fsub :: "real \<Rightarrow> real \<Rightarrow> real" where
  "fsub x y = double (x - y)"

definition fmul :: "real \<Rightarrow> real \<Rightarrow> real" where
  "fmul x y = double (x * y)"

definition fdiv :: "real \<Rightarrow> real \<Rightarrow> real" where
  "fdiv x y = double (x / y)"

definition fsqrt :: "real \<Rightarrow> real" where
  "fsqrt x = double (sqrt x)"

definition fpow :: "real \<Rightarrow> nat \<Rightarrow> real" where
  "fpow x n = double (x ^ n)"

section \<open>Cubic bezier bound (element/bounds.ts)\<close>

text \<open>
  The sum and the products are evaluated from left to right, as the source writes them.
\<close>

definition getBezierValueForT :: "real \<Rightarrow> real \<Rightarrow> real \<Rightarrow> real \<Rightarrow> real \<Rightarrow> real" where
  "getBezierValueForT t p0 p1 p2 p3 =
     (let oneMinusT = fsub 1 t in
        fadd (fadd (fadd (fmul (fpow oneMinusT 3) p0)
                         (fmul (fmul (fmul 3 (fpow oneMinusT 2)) t) p1))
                   (fmul (fmul (fmul 3 oneMinusT) (fpow t 2)) p2))
             (fmul (fpow t 3) p3))"

text \<open>
  \<^verbatim>\<open>MaybeQuadraticSolution = [number | null, number | null] | false\<close>: \<open>None\<close> is
  \<^verbatim>\<open>false\<close>, and inside the pair \<open>None\<close> is \<^verbatim>\<open>null\<close>.

  The parameter values \<open>t1\<close>, \<open>t2\<close> are \<open>real option\<close>: when \<open>a = 0\<close> and \<open>b = 0\<close> the
  source divides by zero, \<^verbatim>\<open>-c / b\<close> is an infinity or \<^verbatim>\<open>NaN\<close>, and both range tests
  \<^verbatim>\<open>t >= 0 && t <= 1\<close> fail; \<open>None\<close> stands for that value. The test \<^verbatim>\<open>a === 0\<close> is on
  the rounded coefficient.
\<close>

definition solveQuadratic ::
  "real \<Rightarrow> real \<Rightarrow> real \<Rightarrow> real \<Rightarrow> (real option \<times> real option) option" where
  "solveQuadratic p0 p1 p2 p3 =
     (let i = fsub p1 p0; j = fsub p2 p1; k = fsub p3 p2;
          a = fadd (fsub (fmul 3 i) (fmul 6 j)) (fmul 3 k);
          b = fsub (fmul 6 j) (fmul 6 i);
          c = fmul 3 i;
          sqrtPart = fsub (fmul b b) (fmul (fmul 4 a) c);
          hasSolution = (sqrtPart \<ge> 0)
      in if \<not> hasSolution then None
         else
           let (t1, t2) =
                 (if a = 0
                  then (if b = 0 then (None, None)
                        else (Some (fdiv (- c) b), Some (fdiv (- c) b)))
                  else (Some (fdiv (fadd (- b) (fsqrt sqrtPart)) (fmul 2 a)),
                        Some (fdiv (fsub (- b) (fsqrt sqrtPart)) (fmul 2 a))));
               s1 = (case t1 of
                       Some t \<Rightarrow> if t \<ge> 0 \<and> t \<le> 1
                                 then Some (getBezierValueForT t p0 p1 p2 p3) else None
                     | None \<Rightarrow> None);
               s2 = (case t2 of
                       Some t \<Rightarrow> if t \<ge> 0 \<and> t \<le> 1
                                 then Some (getBezierValueForT t p0 p1 p2 p3) else None
                     | None \<Rightarrow> None)
           in Some (s1, s2))"

text \<open>\<^verbatim>\<open>sol.filter((x) => x !== null)\<close> on the two-element array.\<close>

definition nonNull :: "real option \<times> real option \<Rightarrow> real list" where
  "nonNull sol = (case sol of (s1, s2) \<Rightarrow>
     (case s1 of Some v \<Rightarrow> [v] | None \<Rightarrow> []) @ (case s2 of Some v \<Rightarrow> [v] | None \<Rightarrow> []))"

text \<open>\<^verbatim>\<open>Math.min(m, ...xs)\<close> and \<^verbatim>\<open>Math.max(m, ...xs)\<close>.\<close>

definition minWith :: "real \<Rightarrow> real list \<Rightarrow> real" where
  "minWith m xs = fold min xs m"

definition maxWith :: "real \<Rightarrow> real list \<Rightarrow> real" where
  "maxWith m xs = fold max xs m"

definition getCubicBezierCurveBound ::
  "Point \<Rightarrow> Point \<Rightarrow> Point \<Rightarrow> Point \<Rightarrow> real \<times> real \<times> real \<times> real" where
  "getCubicBezierCurveBound p0 p1 p2 p3 =
     (let solX = solveQuadratic (fst p0) (fst p1) (fst p2) (fst p3);
          solY = solveQuadratic (snd p0) (snd p1) (snd p2) (snd p3);
          minX0 = min (fst p0) (fst p3);
          maxX0 = max (fst p0) (fst p3);
          (minX, maxX) = (case solX of
                            Some sol \<Rightarrow> (minWith minX0 (nonNull sol), maxWith maxX0 (nonNull sol))
                          | None \<Rightarrow> (minX0, maxX0));
          minY0 = min (snd p0) (snd p3);
          maxY0 = max (snd p0) (snd p3);
          (minY, maxY) = (case solY of
                            Some sol \<Rightarrow> (minWith minY0 (nonNull sol), maxWith maxY0 (nonNull sol))
                          | None \<Rightarrow> (minY0, maxY0))
      in (minX, minY, maxX, maxY))"

section \<open>Elements\<close>

text \<open>
  An element is a JavaScript object. Both caches of the program are \<^verbatim>\<open>WeakMap\<close>s keyed by
  the object itself, not by its \<^verbatim>\<open>id\<close>, and elements are also mutated in place, so objects
  live in a store: a \<open>ref\<close> is the identity of an object and the \<open>heap\<close> gives its
  current fields.

  Fields a given element kind does not have in the source are still present in the record
  and are not read for that kind. \<open>el_points\<close> is the first point and the remaining
  points: linear and freedraw elements always have a first point. Properties probed with
  \<^verbatim>\<open>'p' in element\<close> or by truthiness are options, \<open>None\<close> for an absent property.
\<close>

type_synonym ref = nat

record CropProperties =
  crop_x :: real
  crop_y :: real
  crop_width :: real
  crop_height :: real

record element =
  el_id :: string
  el_type :: string
  el_x :: real
  el_y :: real
  el_width :: real
  el_height :: real
  el_angle :: real
  el_version :: nat
  el_opacity :: real
  el_index :: string
  el_points :: "Point \<times> Point list"
  el_strokeWidth :: real
  el_containerId :: "string option"
  el_groupIds :: "string list"
  el_isPathElement :: bool
  el_isMakeClippingMask :: bool
  el_clippingMaskId :: "string option"
  el_cmGroupLength :: "nat option"
  el_cmeIndex :: "nat option"
  el_akhonRenderKoraUchit :: "bool option"
  el_isRenderCropWindow :: "bool option"
  el_isCroppedImage :: "bool option"
  el_cropProperties :: "CropProperties option"

type_synonym heap = "ref \<Rightarrow> element"

text \<open>\<^verbatim>\<open>ElementsMap\<close>: a \<^verbatim>\<open>Map\<close> from element id to element object.\<close>

type_synonym ElementsMap = "string \<rightharpoonup> ref"

definition points :: "element \<Rightarrow> Point list" where
  "points element = fst (el_points element) # snd (el_points element)"

subsection \<open>Helpers of modules that are not among the sources\<close>

text \<open>
  Modelled from the spec: the type guards of \<^verbatim>\<open>element/typeChecks.ts\<close>, which is not
  among the sources. The spec names freehand shapes (\<^verbatim>\<open>freedraw\<close>), linear shapes
  (line/arrow), text, and "a label bound to a container".
\<close>

definition isFreeDrawElement :: "element \<Rightarrow> bool" where
  "isFreeDrawElement element \<longleftrightarrow> el_type element = ''freedraw''"

definition isLinearElement :: "element \<Rightarrow> bool" where
  "isLinearElement element \<longleftrightarrow> el_type element = ''arrow'' \<or> el_type element = ''line''"

definition isTextElement :: "element \<Rightarrow> bool" where
  "isTextElement element \<longleftrightarrow> el_type element = ''text''"

definition isArrowElement :: "element option \<Rightarrow> bool" where
  "isArrowElement container \<longleftrightarrow>
     (case container of Some element \<Rightarrow> el_type element = ''arrow'' | None \<Rightarrow> False)"

definition isBoundToContainer :: "element \<Rightarrow> bool" where
  "isBoundToContainer element \<longleftrightarrow> el_containerId element \<noteq> None \<and> isTextElement element"

text \<open>
  Modelled from the spec: \<^verbatim>\<open>rotate\<close> of \<^verbatim>\<open>math.ts\<close>, which is not among the sources:
  the point \<open>(x1, y1)\<close> rotated about \<open>(x2, y2)\<close> by \<open>angle\<close> radians.
\<close>

definition rotate_xy :: "real \<Rightarrow> real \<Rightarrow> real \<Rightarrow> real \<Rightarrow> real \<Rightarrow> Point" where
  "rotate_xy x1 y1 x2 y2 angle =
     ((x1 - x2) * cos angle - (y1 - y2) * sin angle + x2,
      (x1 - x2) * sin angle + (y1 - y2) * cos angle + y2)"

text \<open>\<^verbatim>\<open>Math.hypot\<close> of two arguments.\<close>

definition hypot :: "real \<Rightarrow> real \<Rightarrow> real" where
  "hypot a b = sqrt (a * a + b * b)"

text \<open>
  Modelled from the spec: \<^verbatim>\<open>arrayToMap\<close> of \<^verbatim>\<open>utils.ts\<close>, which is not among the
  sources: the lookup from id to shape; a later element with the same id replaces an
  earlier one, as \<^verbatim>\<open>new Map(entries)\<close> does.
\<close>

definition arrayToMap :: "heap \<Rightarrow> ref list \<Rightarrow> ElementsMap" where
  "arrayToMap h elements = fold (\<lambda>r m. m(el_id (h r) \<mapsto> r)) elements Map.empty"

text \<open>
  The path operations of a roughjs drawable: \<^verbatim>\<open>{op, data}\<close> with \<^verbatim>\<open>op\<close> one of
  \<^verbatim>\<open>move\<close>, \<^verbatim>\<open>bcurveTo\<close>, \<^verbatim>\<open>lineTo\<close>, \<^verbatim>\<open>qcurveTo\<close>. A drawable has at least one set
  of operations; a set is its \<^verbatim>\<open>type\<close> and its \<^verbatim>\<open>ops\<close>.
\<close>

datatype Op =
    Move real real
  | BcurveTo real real real real real real
  | LineTo real real
  | QcurveTo real real real real

type_synonym OpSet = "string \<times> Op list"

type_synonym Drawable = "OpSet \<times> OpSet list"

text \<open>
  The collaborators of the bounds engine that are not among the sources
  (\<^verbatim>\<open>textElement.ts\<close>, \<^verbatim>\<open>linearElementEditor.ts\<close>, \<^verbatim>\<open>ShapeCache\<close> and roughjs) are
  parameters. \<open>linearShape\<close> is
  \<^verbatim>\<open>ShapeCache.get(element)?.[0] ?? generateLinearElementShape(element)\<close>.
\<close>

record boundsExt =
  getContainerElement :: "heap \<Rightarrow> element \<Rightarrow> ElementsMap \<Rightarrow> ref option"
  getBoundTextElement :: "heap \<Rightarrow> element \<Rightarrow> ElementsMap \<Rightarrow> ref option"
  lee_getElementAbsoluteCoords ::
    "heap \<Rightarrow> element \<Rightarrow> ElementsMap \<Rightarrow> bool \<Rightarrow> real \<times> real \<times> real \<times> real \<times> real \<times> real"
  lee_getBoundTextElementPosition :: "heap \<Rightarrow> element \<Rightarrow> element \<Rightarrow> ElementsMap \<Rightarrow> Point"
  lee_getMinMaxXYWithBoundText :: "heap \<Rightarrow> element \<Rightarrow> ElementsMap \<Rightarrow> Bounds \<Rightarrow> element \<Rightarrow> Bounds"
  linearShape :: "element \<Rightarrow> Drawable"

section \<open>Bounds engine (element/bounds.ts)\<close>

definition getCurvePathOps :: "Drawable \<Rightarrow> Op list" where
  "getCurvePathOps shape =
     (case find (\<lambda>s. fst s = ''path'') (fst shape # snd shape) of
        Some s \<Rightarrow> snd s
      | None \<Rightarrow> snd (fst shape))"

text \<open>
  The state of the \<^verbatim>\<open>reduce\<close> in \<^verbatim>\<open>getMinMaxXYFromCurvePathOps\<close>: the variable
  \<^verbatim>\<open>currentP\<close> and the four limits.
\<close>

definition curveStep ::
  "(real \<Rightarrow> real \<Rightarrow> Point) option \<Rightarrow> Op \<Rightarrow> Point \<times> Bounds \<Rightarrow> Point \<times> Bounds" where
  "curveStep transformXY operation st =
     (case st of (currentP, (minX, minY, maxX, maxY)) \<Rightarrow>
        (case operation of
           Move mx my \<Rightarrow> ((mx, my), (minX, minY, maxX, maxY))
         | BcurveTo d0 d1 d2 d3 d4 d5 \<Rightarrow>
             (let tr = (\<lambda>p. case transformXY of Some f \<Rightarrow> f (fst p) (snd p) | None \<Rightarrow> p);
                  p1 = tr (d0, d1);
                  p2 = tr (d2, d3);
                  p3 = tr (d4, d5);
                  p0 = tr currentP;
                  (bMinX, bMinY, bMaxX, bMaxY) = getCubicBezierCurveBound p0 p1 p2 p3
              in ((d4, d5),
                  (min minX (Fin bMinX), min minY (Fin bMinY),
                   max maxX (Fin bMaxX), max maxY (Fin bMaxY))))
         | LineTo _ _ \<Rightarrow> (currentP, (minX, minY, maxX, maxY))
         | QcurveTo _ _ _ _ \<Rightarrow> (currentP, (minX, minY, maxX, maxY))))"

definition getMinMaxXYFromCurvePathOps ::
  "Op list \<Rightarrow> (real \<Rightarrow> real \<Rightarrow> Point) option \<Rightarrow> Bounds" where
  "getMinMaxXYFromCurvePathOps ops transformXY =
     snd (fold (curveStep transformXY) ops ((0, 0), (PInf, PInf, MInf, MInf)))"

definition getBoundsFromPoints :: "Point list \<Rightarrow> Bounds" where
  "getBoundsFromPoints pts =
     fold (\<lambda>(x, y) (minX, minY, maxX, maxY).
             (min minX (Fin x), min minY (Fin y), max maxX (Fin x), max maxY (Fin y)))
          pts (PInf, PInf, MInf, MInf)"

text \<open>
  The finite value of an accumulator. It is applied only to the bounds of the points of
  an element, a list with a first point, where all four limits are finite.
\<close>

fun finite_value :: "num \<Rightarrow> real" where
  "finite_value (Fin a) = a"
| "finite_value _ = 0"

definition getFreeDrawElementAbsoluteCoords ::
  "element \<Rightarrow> real \<times> real \<times> real \<times> real \<times> real \<times> real" where
  "getFreeDrawElementAbsoluteCoords element =
     (let (minX, minY, maxX, maxY) = getBoundsFromPoints (points element);
          x1 = finite_value minX + el_x element;
          y1 = finite_value minY + el_y element;
          x2 = finite_value maxX + el_x element;
          y2 = finite_value maxY + el_y element
      in (x1, y1, x2, y2, (x1 + x2) / 2, (y1 + y2) / 2))"

definition getElementAbsoluteCoords ::
  "boundsExt \<Rightarrow> heap \<Rightarrow> element \<Rightarrow> ElementsMap \<Rightarrow> bool
     \<Rightarrow> real \<times> real \<times> real \<times> real \<times> real \<times> real" where
  "getElementAbsoluteCoords ext h element elementsMap includeBoundText =
     (let plain = (el_x element, el_y element,
                   el_x element + el_width element, el_y element + el_height element,
                   el_x element + el_width element / 2, el_y element + el_height element / 2)
      in if isFreeDrawElement element then getFreeDrawElementAbsoluteCoords element
         else if isLinearElement element
         then lee_getElementAbsoluteCoords ext h element elementsMap includeBoundText
         else if isTextElement element
         then (case map_option h (getContainerElement ext h element elementsMap) of
                 Some container \<Rightarrow>
                   if isArrowElement (Some container)
                   then (let (coords_x, coords_y) =
                               lee_getBoundTextElementPosition ext h container element elementsMap
                         in (coords_x, coords_y,
                             coords_x + el_width element, coords_y + el_height element,
                             coords_x + el_width element / 2, coords_y + el_height element / 2))
                   else plain
               | None \<Rightarrow> plain)
         else plain)"

text \<open>\<^verbatim>\<open>Math.min\<close> and \<^verbatim>\<open>Math.max\<close> of four arguments.\<close>

definition min4 :: "real \<Rightarrow> real \<Rightarrow> real \<Rightarrow> real \<Rightarrow> real" where
  "min4 a b c d = min (min (min a b) c) d"

definition max4 :: "real \<Rightarrow> real \<Rightarrow> real \<Rightarrow> real \<Rightarrow> real" where
  "max4 a b c d = max (max (max a b) c) d"

definition getLinearElementRotatedBounds ::
  "boundsExt \<Rightarrow> heap \<Rightarrow> element \<Rightarrow> real \<Rightarrow> real \<Rightarrow> ElementsMap \<Rightarrow> Bounds" where
  "getLinearElementRotatedBounds ext h element cx cy elementsMap =
     (let boundTextElement = getBoundTextElement ext h element elementsMap
      in if length (points element) < 2
         then (let (pointX, pointY) = fst (el_points element);
                   (x, y) = rotate_xy (el_x element + pointX) (el_y element + pointY)
                              cx cy (el_angle element);
                   coords = (Fin x, Fin y, Fin x, Fin y)
               in case boundTextElement of
                    Some bt \<Rightarrow>
                      lee_getMinMaxXYWithBoundText ext h element elementsMap
                        (Fin x, Fin y, Fin x, Fin y) (h bt)
                  | None \<Rightarrow> coords)
         else (let shape = linearShape ext element;
                   ops = getCurvePathOps shape;
                   transformXY = (\<lambda>x y. rotate_xy (el_x element + x) (el_y element + y)
                                            cx cy (el_angle element));
                   coords = getMinMaxXYFromCurvePathOps ops (Some transformXY)
               in case boundTextElement of
                    Some bt \<Rightarrow>
                      lee_getMinMaxXYWithBoundText ext h element elementsMap coords (h bt)
                  | None \<Rightarrow> coords))"

definition calculateBounds :: "boundsExt \<Rightarrow> heap \<Rightarrow> element \<Rightarrow> ElementsMap \<Rightarrow> Bounds" where
  "calculateBounds ext h element elementsMap =
     (let (x1, y1, x2, y2, cx, cy) = getElementAbsoluteCoords ext h element elementsMap False
      in if isFreeDrawElement element
         then (let (minX, minY, maxX, maxY) =
                     getBoundsFromPoints
                       (map (\<lambda>(x, y). rotate_xy x y (cx - el_x element) (cy - el_y element)
                                         (el_angle element))
                            (points element))
               in (addFin minX (el_x element), addFin minY (el_y element),
                   addFin maxX (el_x element), addFin maxY (el_y element)))
         else if isLinearElement element
         then getLinearElementRotatedBounds ext h element cx cy elementsMap
         else if el_type element = ''diamond''
         then (let (x11, y11) = rotate_xy cx y1 cx cy (el_angle element);
                   (x12, y12) = rotate_xy cx y2 cx cy (el_angle element);
                   (x22, y22) = rotate_xy x1 cy cx cy (el_angle element);
                   (x21, y21) = rotate_xy x2 cy cx cy (el_angle element);
                   minX = min4 x11 x12 x22 x21;
                   minY = min4 y11 y12 y22 y21;
                   maxX = max4 x11 x12 x22 x21;
                   maxY = max4 y11 y12 y22 y21
               in (Fin minX, Fin minY, Fin maxX, Fin maxY))
         else if el_type element = ''ellipse''
         then (let w = (x2 - x1) / 2;
                   hh0 = (y2 - y1) / 2;
                   cos_a = cos (el_angle element);
                   sin_a = sin (el_angle element);
                   ww = hypot (w * cos_a) (hh0 * sin_a);
                   hh = hypot (hh0 * cos_a) (w * sin_a)
               in (Fin (cx - ww), Fin (cy - hh), Fin (cx + ww), Fin (cy + hh)))
         else (let (x11, y11) = rotate_xy x1 y1 cx cy (el_angle element);
                   (x12, y12) = rotate_xy x1 y2 cx cy (el_angle element);
                   (x22, y22) = rotate_xy x2 y2 cx cy (el_angle element);
                   (x21, y21) = rotate_xy x2 y1 cx cy (el_angle element);
                   minX = min4 x11 x12 x22 x21;
                   minY = min4 y11 y12 y22 y21;
                   maxX = max4 x11 x12 x22 x21;
                   maxY = max4 y11 y12 y22 y21
               in (Fin minX, Fin minY, Fin maxX, Fin maxY)))"

text \<open>
  \<^verbatim>\<open>ElementBounds.boundsCache\<close>, a static \<^verbatim>\<open>WeakMap\<close> from the element object to
  \<^verbatim>\<open>{bounds, version}\<close>. It is global mutable state: every function that reads or writes it
  takes the cache and returns it. The first conjunct of the test, \<^verbatim>\<open>cachedBounds?.version\<close>,
  is a truthiness test on a number: it fails when there is no entry and when the stored
  version is 0.
\<close>

record BoundsCacheEntry =
  ce_bounds :: Bounds
  ce_version :: nat

type_synonym BoundsCache = "ref \<rightharpoonup> BoundsCacheEntry"

definition getBounds ::
  "boundsExt \<Rightarrow> heap \<Rightarrow> BoundsCache \<Rightarrow> ref \<Rightarrow> ElementsMap \<Rightarrow> Bounds \<times> BoundsCache" where
  "getBounds ext h boundsCache r elementsMap =
     (let element = h r;
          recomputed =
            (let bounds = calculateBounds ext h element elementsMap
             in (bounds,
                 boundsCache(r \<mapsto> \<lparr>ce_bounds = bounds, ce_version = el_version element\<rparr>)))
      in case boundsCache r of
           Some cachedBounds \<Rightarrow>
             if ce_version cachedBounds \<noteq> 0
                \<and> ce_version cachedBounds = el_version element
                \<and> \<not> isBoundToContainer element
             then (ce_bounds cachedBounds, boundsCache)
             else recomputed
         | None \<Rightarrow> recomputed)"

definition getElementBounds ::
  "boundsExt \<Rightarrow> heap \<Rightarrow> BoundsCache \<Rightarrow> ref \<Rightarrow> ElementsMap \<Rightarrow> Bounds \<times> BoundsCache" where
  "getElementBounds ext h boundsCache r elementsMap = getBounds ext h boundsCache r elementsMap"

text \<open>One turn of the \<^verbatim>\<open>forEach\<close> of \<^verbatim>\<open>getCommonBounds\<close>.\<close>

definition commonBoundsStep ::
  "boundsExt \<Rightarrow> heap \<Rightarrow> ElementsMap \<Rightarrow> ref \<Rightarrow> Bounds \<times> BoundsCache \<Rightarrow> Bounds \<times> BoundsCache" where
  "commonBoundsStep ext h elementsMap r st =
     (case st of ((minX, minY, maxX, maxY), boundsCache) \<Rightarrow>
        (let ((x1, y1, x2, y2), boundsCache') = getElementBounds ext h boundsCache r elementsMap
         in ((min minX x1, min minY y1, max maxX x2, max maxY y2), boundsCache')))"

definition getCommonBounds ::
  "boundsExt \<Rightarrow> heap \<Rightarrow> BoundsCache \<Rightarrow> ref list \<Rightarrow> Bounds \<times> BoundsCache" where
  "getCommonBounds ext h boundsCache elements =
     (if length elements = 0 then ((Fin 0, Fin 0, Fin 0, Fin 0), boundsCache)
      else (let elementsMap = arrayToMap h elements
            in fold (commonBoundsStep ext h elementsMap) elements
                 ((PInf, PInf, MInf, MInf), boundsCache)))"

section \<open>Transform-handle hit test (\<^verbatim>\<open>resizeTest\<close>)\<close>

text \<open>
  A \<^verbatim>\<open>TransformHandle\<close> is \<^verbatim>\<open>[x, y, width, height]\<close>. \<^verbatim>\<open>TransformHandles\<close> is a JavaScript
  object from handle role to handle or \<^verbatim>\<open>undefined\<close>; it is the list of its entries in key
  order, which is the order \<^verbatim>\<open>Object.keys\<close> reports. The roles are the strings of the source
  (\<^verbatim>\<open>n\<close>, \<^verbatim>\<open>s\<close>, \<^verbatim>\<open>w\<close>, \<^verbatim>\<open>e\<close>, \<^verbatim>\<open>nw\<close>, \<^verbatim>\<open>ne\<close>, \<^verbatim>\<open>sw\<close>, \<^verbatim>\<open>se\<close>, \<^verbatim>\<open>rotation\<close>), and
  \<^verbatim>\<open>MaybeTransformHandleType\<close> is an option, \<open>None\<close> for \<^verbatim>\<open>false\<close>.
\<close>

type_synonym TransformHandleType = string

type_synonym TransformHandle = "real \<times> real \<times> real \<times> real"

type_synonym TransformHandles = "(TransformHandleType \<times> TransformHandle option) list"

type_synonym Line = "Point \<times> Point"

text \<open>The part of \<^verbatim>\<open>AppState\<close> that the modelled functions read.\<close>

record AppState =
  selectedElementIds :: "string \<Rightarrow> bool"
  theme :: string
  zoom_value :: real
  shouldCacheIgnoreZoom :: bool
  frameRendering_enabled :: bool
  frameRendering_outline :: bool

text \<open>
  \<^verbatim>\<open>transformHandles.ts\<close>, \<^verbatim>\<open>utils/geometry\<close> and \<^verbatim>\<open>constants.ts\<close> are not among the
  sources: their functions and the constant \<^verbatim>\<open>SIDE_RESIZING_THRESHOLD\<close> are parameters.
  The types of the device, of the pointer type and of the omitted sides are left open.
\<close>

record ('dev, 'ptr, 'omit) resizeExt =
  getTransformHandles ::
    "heap \<Rightarrow> element \<Rightarrow> real \<Rightarrow> ElementsMap \<Rightarrow> 'ptr \<Rightarrow> 'omit \<Rightarrow> TransformHandles"
  getCropTransformHandles ::
    "heap \<Rightarrow> element \<Rightarrow> real \<Rightarrow> ElementsMap \<Rightarrow> 'ptr \<Rightarrow> 'omit \<Rightarrow> TransformHandles"
  getOmitSidesForDevice :: "'dev \<Rightarrow> 'omit"
  canResizeFromSides :: "'dev \<Rightarrow> bool"
  angleToDegrees :: "real \<Rightarrow> real"
  pointOnLine :: "Point \<Rightarrow> Line \<Rightarrow> real \<Rightarrow> bool"
  pointRotate :: "Point \<Rightarrow> real \<Rightarrow> Point \<Rightarrow> Point"
  SIDE_RESIZING_THRESHOLD :: real

definition isInsideTransformHandle :: "TransformHandle \<Rightarrow> real \<Rightarrow> real \<Rightarrow> bool" where
  "isInsideTransformHandle transformHandle x y =
     (case transformHandle of (hx, hy, hw, hh) \<Rightarrow>
        x \<ge> hx \<and> x \<le> hx + hw \<and> y \<ge> hy \<and> y \<le> hy + hh)"

text \<open>
  The destructuring \<^verbatim>\<open>const { rotation: r, ...rest } = handles\<close>: the value under the key
  \<^verbatim>\<open>rotation\<close> (absent and \<^verbatim>\<open>undefined\<close> are both \<open>None\<close>) and the other entries.
\<close>

definition rotationOf :: "TransformHandles \<Rightarrow> TransformHandle option" where
  "rotationOf handles = (case map_of handles ''rotation'' of Some th \<Rightarrow> th | None \<Rightarrow> None)"

definition restOf :: "TransformHandles \<Rightarrow> TransformHandles" where
  "restOf handles = filter (\<lambda>entry. fst entry \<noteq> ''rotation'') handles"

text \<open>
  \<^verbatim>\<open>Object.keys(handles).filter(key => handles[key] && isInsideTransformHandle(handles[key], x, y))\<close>.
\<close>

definition keysInside :: "TransformHandles \<Rightarrow> real \<Rightarrow> real \<Rightarrow> TransformHandleType list" where
  "keysInside handles x y =
     map fst (filter (\<lambda>entry. case snd entry of
                                 Some transformHandle \<Rightarrow> isInsideTransformHandle transformHandle x y
                               | None \<Rightarrow> False) handles)"

definition getSelectionBorders ::
  "('dev, 'ptr, 'omit) resizeExt \<Rightarrow> Point \<Rightarrow> Point \<Rightarrow> Point \<Rightarrow> real
     \<Rightarrow> (TransformHandleType \<times> Line) list" where
  "getSelectionBorders rext p1 p2 center angleInDegrees =
     (case p1 of (x1, y1) \<Rightarrow> case p2 of (x2, y2) \<Rightarrow>
        (let topLeft = pointRotate rext (x1, y1) angleInDegrees center;
             topRight = pointRotate rext (x2, y1) angleInDegrees center;
             bottomLeft = pointRotate rext (x1, y2) angleInDegrees center;
             bottomRight = pointRotate rext (x2, y2) angleInDegrees center
         in [(''n'', (topLeft, topRight)),
             (''e'', (topRight, bottomRight)),
             (''s'', (bottomRight, bottomLeft)),
             (''w'', (bottomLeft, topLeft))]))"

text \<open>
  The loop \<^verbatim>\<open>for (const [dir, side] of Object.entries(sides))\<close> that returns the first
  \<^verbatim>\<open>dir\<close> whose side the pointer is on.
\<close>

definition firstSideHit ::
  "('dev, 'ptr, 'omit) resizeExt \<Rightarrow> (TransformHandleType \<times> Line) list \<Rightarrow> real \<Rightarrow> real \<Rightarrow> real
     \<Rightarrow> TransformHandleType option" where
  "firstSideHit rext sides x y spacing =
     map_option fst (find (\<lambda>entry. pointOnLine rext (x, y) (snd entry) spacing) sides)"

definition resizeTest ::
  "boundsExt \<Rightarrow> ('dev, 'ptr, 'omit) resizeExt \<Rightarrow> heap \<Rightarrow> element \<Rightarrow> ElementsMap \<Rightarrow> AppState
     \<Rightarrow> real \<Rightarrow> real \<Rightarrow> real \<Rightarrow> 'ptr \<Rightarrow> 'dev \<Rightarrow> TransformHandleType option" where
  "resizeTest ext rext h element elementsMap appState x y zoom pointerType device =
     (if \<not> selectedElementIds appState (el_id element) then None
      else
        let handles = getTransformHandles rext h element zoom elementsMap pointerType
                        (getOmitSidesForDevice rext device);
            rotationTransformHandle = rotationOf handles;
            transformHandles = restOf handles
        in if (case rotationTransformHandle of
                 Some th \<Rightarrow> isInsideTransformHandle th x y
               | None \<Rightarrow> False)
           then Some ''rotation''
           else
             case keysInside transformHandles x y of
               key # _ \<Rightarrow> Some key
             | [] \<Rightarrow>
                (case keysInside
                        (restOf (getCropTransformHandles rext h element zoom elementsMap pointerType
                                   (getOmitSidesForDevice rext device))) x y of
                   key # _ \<Rightarrow> Some key
                 | [] \<Rightarrow>
                    if canResizeFromSides rext device
                    then
                      (let (x1, y1, x2, y2, cx, cy) =
                             getElementAbsoluteCoords ext h element elementsMap False;
                           SPACING = SIDE_RESIZING_THRESHOLD rext / zoom;
                           sideHit =
                             (if \<not> (isLinearElement element \<and> length (points element) \<le> 2)
                              then firstSideHit rext
                                     (getSelectionBorders rext
                                        (x1 - SPACING, y1 - SPACING) (x2 + SPACING, y2 + SPACING)
                                        (cx, cy) (angleToDegrees rext (el_angle element)))
                                     x y SPACING
                              else None)
                       in case sideHit of
                            Some dir \<Rightarrow> Some dir
                          | None \<Rightarrow>
                             (case (el_isRenderCropWindow element, el_cropProperties element) of
                                (Some isRenderCropWindow, Some cropProperties) \<Rightarrow>
                                  if isRenderCropWindow
                                  then (let nx1 = x1 + crop_x cropProperties;
                                            ny1 = y1 + crop_y cropProperties;
                                            nx2 = nx1 + crop_width cropProperties;
                                            ny2 = ny1 + crop_height cropProperties;
                                            ncx = el_x element + el_width element / 2;
                                            ncy = el_y element + el_height element / 2
                                        in firstSideHit rext
                                             (getSelectionBorders rext (nx1, ny1) (nx2, ny2)
                                                (ncx, ncy) (angleToDegrees rext (el_angle element)))
                                             x y SPACING)
                                  else None
                              | _ \<Rightarrow> None))
                    else None))"

section \<open>Element rendering (renderer/renderElement.ts)\<close>

text \<open>
  A 2D context is the list of the drawing routines that have run on it, oldest first, each
  with the element it drew. Pixels, transforms and style state (\<^verbatim>\<open>globalAlpha\<close>,
  \<^verbatim>\<open>imageSmoothingEnabled\<close>, line joins) are not modelled. Drawing one canvas onto another
  records the content of the source canvas.
\<close>

datatype CanvasOp =
    RoughDraw ref
  | PathDraw ref
  | FillFreeDraw ref
  | DrawImageElement ref
  | ImagePlaceholder ref
  | FillTextLines ref
  | StrokeFrame ref
  | SetCompositeDestinationIn
  | DrawElementCanvas ref "CanvasOp list"
  | DrawComposite "CanvasOp list"

type_synonym Context = "CanvasOp list"

text \<open>\<^verbatim>\<open>throw new Error(`Unimplemented type ${element.type}`)\<close>.\<close>

datatype error = Unimplemented_type string | TypeError

record Canvas =
  cv_width :: real
  cv_height :: real
  cv_content :: Context

record ElementWithCanvas =
  ewc_element :: ref
  ewc_canvas :: Canvas
  ewc_theme :: string
  ewc_scale :: real
  ewc_zoomValue :: real
  ewc_canvasOffsetX :: real
  ewc_canvasOffsetY :: real
  ewc_boundTextElementVersion :: "nat option"
  ewc_containingFrameOpacity :: real

text \<open>\<^verbatim>\<open>elementWithCanvasCache\<close>, a \<^verbatim>\<open>WeakMap\<close> keyed by the element object.\<close>

type_synonym ElementWithCanvasCache = "ref \<rightharpoonup> ElementWithCanvas"

text \<open>
  What the renderer takes from outside the sources: \<^verbatim>\<open>getContainingFrame\<close> of
  \<^verbatim>\<open>frame.ts\<close>, whether the image of an element is loaded in
  \<^verbatim>\<open>renderConfig.imageCache\<close>, \<^verbatim>\<open>window.devicePixelRatio\<close>, and
  \<^verbatim>\<open>String.prototype.localeCompare\<close>, whose result depends on the locale of the host.
\<close>

record renderExt =
  getContainingFrame :: "heap \<Rightarrow> element \<Rightarrow> ElementsMap \<Rightarrow> ref option"
  imageLoaded :: "element \<Rightarrow> bool"
  devicePixelRatio :: real
  localeCompare :: "string \<Rightarrow> string \<Rightarrow> int"

definition getCanvasPadding :: "element \<Rightarrow> real" where
  "getCanvasPadding element =
     (if el_type element = ''freedraw'' then el_strokeWidth element * 12 else 20)"

text \<open>Modelled from the spec: \<^verbatim>\<open>distance\<close> of \<^verbatim>\<open>utils.ts\<close>, the distance of two numbers.\<close>

definition distance :: "real \<Rightarrow> real \<Rightarrow> real" where
  "distance a b = \<bar>a - b\<bar>"

definition cappedElementCanvasSize ::
  "boundsExt \<Rightarrow> renderExt \<Rightarrow> heap \<Rightarrow> element \<Rightarrow> ElementsMap \<Rightarrow> real \<Rightarrow> real \<times> real \<times> real" where
  "cappedElementCanvasSize ext rx h element elementsMap zoom =
     (let AREA_LIMIT = 16777216;
          WIDTH_HEIGHT_LIMIT = 32767;
          padding = getCanvasPadding element;
          (x1, y1, x2, y2, cx, cy) = getElementAbsoluteCoords ext h element elementsMap False;
          elementWidth = (if isLinearElement element \<or> isFreeDrawElement element
                          then distance x1 x2 else el_width element);
          elementHeight = (if isLinearElement element \<or> isFreeDrawElement element
                           then distance y1 y2 else el_height element);
          width = elementWidth * devicePixelRatio rx + padding * 2;
          height = elementHeight * devicePixelRatio rx + padding * 2;
          scale0 = zoom;
          scale1 = (if width * scale0 > WIDTH_HEIGHT_LIMIT \<or> height * scale0 > WIDTH_HEIGHT_LIMIT
                    then min (WIDTH_HEIGHT_LIMIT / width) (WIDTH_HEIGHT_LIMIT / height)
                    else scale0);
          scale = (if width * height * scale1 * scale1 > AREA_LIMIT
                   then sqrt (AREA_LIMIT / (width * height))
                   else scale1)
      in (of_int \<lfloor>width * scale\<rfloor>, of_int \<lfloor>height * scale\<rfloor>, scale))"

text \<open>
  The \<^verbatim>\<open>switch (element.type)\<close> of \<^verbatim>\<open>drawElementOnCanvas\<close>. The cases are tried in the
  order of the source; the \<^verbatim>\<open>default\<close> case draws a text element and throws for
  everything else.
\<close>

definition drawElementOnCanvas :: "renderExt \<Rightarrow> ref \<Rightarrow> element \<Rightarrow> error + Context" where
  "drawElementOnCanvas rx r element =
     (if el_type element = ''rectangle''
      then Inr [if el_isPathElement element then PathDraw r else RoughDraw r]
      else if el_type element = ''iframe'' \<or> el_type element = ''embeddable''
              \<or> el_type element = ''diamond'' \<or> el_type element = ''ellipse''
      then Inr [RoughDraw r]
      else if el_type element = ''arrow'' \<or> el_type element = ''line''
      then Inr [RoughDraw r]
      else if el_type element = ''freedraw''
      then Inr [FillFreeDraw r]
      else if el_type element = ''image''
      then Inr [if imageLoaded rx element then DrawImageElement r else ImagePlaceholder r]
      else if isTextElement element
      then Inr [FillTextLines r]
      else Inl (Unimplemented_type (el_type element)))"

text \<open>\<^verbatim>\<open>getBoundTextElement(element, elementsMap)?.version || null\<close>.\<close>

definition boundTextElementVersionOf ::
  "boundsExt \<Rightarrow> heap \<Rightarrow> element \<Rightarrow> ElementsMap \<Rightarrow> nat option" where
  "boundTextElementVersionOf ext h element elementsMap =
     (case getBoundTextElement ext h element elementsMap of
        Some bt \<Rightarrow> if el_version (h bt) \<noteq> 0 then Some (el_version (h bt)) else None
      | None \<Rightarrow> None)"

text \<open>\<^verbatim>\<open>getContainingFrame(element, elementsMap)?.opacity || 100\<close>.\<close>

definition containingFrameOpacityOf ::
  "renderExt \<Rightarrow> heap \<Rightarrow> element \<Rightarrow> ElementsMap \<Rightarrow> real" where
  "containingFrameOpacityOf rx h element elementsMap =
     (case getContainingFrame rx h element elementsMap of
        Some frame \<Rightarrow> if el_opacity (h frame) \<noteq> 0 then el_opacity (h frame) else 100
      | None \<Rightarrow> 100)"

definition generateElementCanvas ::
  "boundsExt \<Rightarrow> renderExt \<Rightarrow> heap \<Rightarrow> ref \<Rightarrow> ElementsMap \<Rightarrow> real \<Rightarrow> AppState
     \<Rightarrow> error + ElementWithCanvas" where
  "generateElementCanvas ext rx h r elementsMap zoom appState =
     (let element = h r;
          (width, height, scale) = cappedElementCanvasSize ext rx h element elementsMap zoom;
          (canvasOffsetX, canvasOffsetY) =
            (if isLinearElement element \<or> isFreeDrawElement element
             then (let (x1, y1, x2, y2, cx, cy) =
                         getElementAbsoluteCoords ext h element elementsMap False
                   in (if el_x element > x1
                       then distance (el_x element) x1 * devicePixelRatio rx * scale else 0,
                       if el_y element > y1
                       then distance (el_y element) y1 * devicePixelRatio rx * scale else 0))
             else (0, 0))
      in case drawElementOnCanvas rx r element of
           Inl err \<Rightarrow> Inl err
         | Inr content \<Rightarrow>
             Inr \<lparr>ewc_element = r,
                  ewc_canvas = \<lparr>cv_width = width, cv_height = height, cv_content = content\<rparr>,
                  ewc_theme = theme appState,
                  ewc_scale = scale,
                  ewc_zoomValue = zoom,
                  ewc_canvasOffsetX = canvasOffsetX,
                  ewc_canvasOffsetY = canvasOffsetY,
                  ewc_boundTextElementVersion = boundTextElementVersionOf ext h element elementsMap,
                  ewc_containingFrameOpacity = containingFrameOpacityOf rx h element elementsMap\<rparr>)"

text \<open>
  The inner function \<^verbatim>\<open>akhonRenderKoraUchit\<close>: the truth value of the flag when the
  element has the property, \<^verbatim>\<open>undefined\<close> (falsy) otherwise.
\<close>

definition akhonRenderKoraUchit :: "element \<Rightarrow> bool" where
  "akhonRenderKoraUchit element =
     (case el_akhonRenderKoraUchit element of Some flag \<Rightarrow> flag | None \<Rightarrow> False)"

text \<open>
  \<^verbatim>\<open>renderConfig\<close> is always an object, so \<^verbatim>\<open>zoom\<close> is \<^verbatim>\<open>appState.zoom\<close>. The result is
  the entry and the cache after the call.
\<close>

definition generateElementWithCanvas ::
  "boundsExt \<Rightarrow> renderExt \<Rightarrow> heap \<Rightarrow> ElementWithCanvasCache \<Rightarrow> ref \<Rightarrow> ElementsMap \<Rightarrow> AppState
     \<Rightarrow> error + (ElementWithCanvas \<times> ElementWithCanvasCache)" where
  "generateElementWithCanvas ext rx h elementWithCanvasCache r elementsMap appState =
     (let element = h r;
          zoom = zoom_value appState;
          prevElementWithCanvas = elementWithCanvasCache r;
          shouldRegenerateBecauseZoom =
            (case prevElementWithCanvas of
               Some prev \<Rightarrow> ewc_zoomValue prev \<noteq> zoom \<and> \<not> shouldCacheIgnoreZoom appState
             | None \<Rightarrow> False);
          boundTextElementVersion = boundTextElementVersionOf ext h element elementsMap;
          containingFrameOpacity = containingFrameOpacityOf rx h element elementsMap;
          regenerated =
            (case generateElementCanvas ext rx h r elementsMap zoom appState of
               Inl err \<Rightarrow> Inl err
             | Inr elementWithCanvas \<Rightarrow>
                 Inr (elementWithCanvas, elementWithCanvasCache(r \<mapsto> elementWithCanvas)))
      in case prevElementWithCanvas of
           None \<Rightarrow> regenerated
         | Some prev \<Rightarrow>
             if akhonRenderKoraUchit element \<or> shouldRegenerateBecauseZoom
                \<or> ewc_theme prev \<noteq> theme appState
                \<or> ewc_boundTextElementVersion prev \<noteq> boundTextElementVersion
                \<or> ewc_containingFrameOpacity prev \<noteq> containingFrameOpacity
             then regenerated
             else Inr (prev, elementWithCanvasCache))"

text \<open>\<^verbatim>\<open>drawElementFromCanvas\<close> draws the cached canvas of the element onto the context.\<close>

definition drawElementFromCanvas :: "ElementWithCanvas \<Rightarrow> Context \<Rightarrow> Context" where
  "drawElementFromCanvas elementWithCanvas context =
     context @ [DrawElementCanvas (ewc_element elementWithCanvas)
                  (cv_content (ewc_canvas elementWithCanvas))]"

definition unconditionalRenderElement ::
  "boundsExt \<Rightarrow> renderExt \<Rightarrow> heap \<Rightarrow> ref \<Rightarrow> ElementsMap \<Rightarrow> AppState
     \<Rightarrow> Context \<times> ElementWithCanvasCache \<Rightarrow> error + (Context \<times> ElementWithCanvasCache)" where
  "unconditionalRenderElement ext rx h r elementsMap appState st =
     (case st of (context, elementWithCanvasCache) \<Rightarrow>
        (let element = h r
         in if el_type element = ''magicframe'' \<or> el_type element = ''frame''
            then (if frameRendering_enabled appState \<and> frameRendering_outline appState
                  then Inr (context @ [StrokeFrame r], elementWithCanvasCache)
                  else Inr (context, elementWithCanvasCache))
            else if el_type element = ''freedraw''
                    \<or> el_type element = ''rectangle'' \<or> el_type element = ''diamond''
                    \<or> el_type element = ''ellipse'' \<or> el_type element = ''line''
                    \<or> el_type element = ''arrow'' \<or> el_type element = ''image''
                    \<or> el_type element = ''text'' \<or> el_type element = ''iframe''
                    \<or> el_type element = ''embeddable''
            then (case generateElementWithCanvas ext rx h elementWithCanvasCache r
                         elementsMap appState of
                    Inl err \<Rightarrow> Inl err
                  | Inr (elementWithCanvas, cache') \<Rightarrow>
                      Inr (drawElementFromCanvas elementWithCanvas context, cache'))
            else Inl (Unimplemented_type (el_type element))))"

subsection \<open>The clipping-mask compositor\<close>

text \<open>
  The guard of \<^verbatim>\<open>renderElement\<close>,
  \<^verbatim>\<open>isMakeClippingMask && clippingMaskId && cmGroupLength && cmeIndex\<close>, by JavaScript
  truthiness: a non-empty string and two non-zero numbers. When the guard holds,
  \<open>maskTag\<close> gives the \<^verbatim>\<open>clippingMaskId\<close> and the \<^verbatim>\<open>cmGroupLength\<close> of the element.
\<close>

definition maskTag :: "element \<Rightarrow> (string \<times> nat) option" where
  "maskTag element =
     (if el_isMakeClippingMask element
      then (case el_clippingMaskId element of
              Some clippingMaskId \<Rightarrow>
                if clippingMaskId \<noteq> []
                then (case el_cmGroupLength element of
                        Some cmGroupLength \<Rightarrow>
                          if cmGroupLength \<noteq> 0
                          then (case el_cmeIndex element of
                                  Some cmeIndex \<Rightarrow>
                                    if cmeIndex \<noteq> 0 then Some (clippingMaskId, cmGroupLength)
                                    else None
                                | None \<Rightarrow> None)
                          else None
                      | None \<Rightarrow> None)
                else None
            | None \<Rightarrow> None)
      else None)"

text \<open>
  \<^verbatim>\<open>maskedElements.sort((a, b) => a.index.localeCompare(b.index))\<close>. The sort of
  JavaScript arrays is stable; it is modelled as the stable insertion sort with the same
  comparator.
\<close>

fun insertByIndex :: "renderExt \<Rightarrow> heap \<Rightarrow> ref \<Rightarrow> ref list \<Rightarrow> ref list" where
  "insertByIndex rx h a [] = [a]"
| "insertByIndex rx h a (b # bs) =
     (if localeCompare rx (el_index (h a)) (el_index (h b)) \<le> 0 then a # b # bs
      else b # insertByIndex rx h a bs)"

fun sortByIndex :: "renderExt \<Rightarrow> heap \<Rightarrow> ref list \<Rightarrow> ref list" where
  "sortByIndex rx h [] = []"
| "sortByIndex rx h (a # as) = insertByIndex rx h a (sortByIndex rx h as)"

text \<open>
  The \<^verbatim>\<open>forEach\<close> over the sorted members: the member at position
  \<^verbatim>\<open>cmGroupLength - 1\<close> is drawn after the switch to \<^verbatim>\<open>destination-in\<close>. The test
  \<^verbatim>\<open>index === cmGroupLength - 1\<close> is written \<open>Suc index = cmGroupLength\<close>, since
  subtraction on \<open>nat\<close> stops at 0.

  \<open>unconditionalRenderElement\<close> writes the raster cache only after the canvas of the
  element has been generated, so a throw leaves the context and the cache as they were
  when it was called. When a member throws, the result is the error and the state at the
  throw: the members before it stay drawn on the temporary canvas and stay in the raster
  cache.
\<close>

fun renderMasked ::
  "boundsExt \<Rightarrow> renderExt \<Rightarrow> heap \<Rightarrow> ElementsMap \<Rightarrow> AppState \<Rightarrow> nat \<Rightarrow> nat \<Rightarrow> ref list
     \<Rightarrow> Context \<times> ElementWithCanvasCache
     \<Rightarrow> error \<times> (Context \<times> ElementWithCanvasCache) + (Context \<times> ElementWithCanvasCache)" where
  "renderMasked ext rx h elementsMap appState cmGroupLength index [] st = Inr st"
| "renderMasked ext rx h elementsMap appState cmGroupLength index (maskedElement # rest) st =
     (case st of (tempCtx, cache) \<Rightarrow>
        (let st0 = (if Suc index = cmGroupLength then tempCtx @ [SetCompositeDestinationIn]
                    else tempCtx, cache)
         in case unconditionalRenderElement ext rx h maskedElement elementsMap appState st0 of
              Inl err \<Rightarrow> Inl (err, st0)
            | Inr st' \<Rightarrow>
                renderMasked ext rx h elementsMap appState cmGroupLength (Suc index) rest st'))"

text \<open>
  The state a call of \<^verbatim>\<open>renderElement\<close> works on: the module-level \<^verbatim>\<open>maskedElementsMap\<close>
  from mask id to the members accumulated so far, the raster cache, and the main context.
  The map is created once, when the module is loaded, and nothing but the completion of a
  batch removes an entry. The hidden \<^verbatim>\<open>img\<close> element that keeps a copy of the composite in
  the document is not modelled.

  When a call raises, the result is the error and the state at the throw. In the mask
  branch the member has then been pushed and \<^verbatim>\<open>sort\<close> has sorted the array of the batch in
  place, so the map holds the sorted members; nothing has been drawn onto the main
  context and the entry has not been removed.
\<close>

record RenderState =
  maskedElementsMap :: "string \<rightharpoonup> ref list"
  rasterCache :: ElementWithCanvasCache
  mainContext :: Context

definition renderElement ::
  "boundsExt \<Rightarrow> renderExt \<Rightarrow> heap \<Rightarrow> ref \<Rightarrow> ElementsMap \<Rightarrow> AppState \<Rightarrow> RenderState
     \<Rightarrow> error \<times> RenderState + RenderState" where
  "renderElement ext rx h r elementsMap appState st =
     (let myelement = h r
      in case maskTag myelement of
           Some (clippingMaskId, cmGroupLength) \<Rightarrow>
             (let accumulated = (case maskedElementsMap st clippingMaskId of
                                   Some members \<Rightarrow> members | None \<Rightarrow> []) @ [r]
              in if length accumulated \<noteq> 0 \<and> length accumulated = cmGroupLength
                 then
                   (let maskedElements = sortByIndex rx h accumulated
                    in case renderMasked ext rx h elementsMap appState cmGroupLength 0
                              maskedElements ([], rasterCache st) of
                         Inl (err, (tempCanvas, cache')) \<Rightarrow>
                           Inl (err,
                                st\<lparr>maskedElementsMap :=
                                      (maskedElementsMap st)(clippingMaskId \<mapsto> maskedElements),
                                    rasterCache := cache'\<rparr>)
                       | Inr (tempCanvas, cache') \<Rightarrow>
                           Inr \<lparr>maskedElementsMap = (maskedElementsMap st)(clippingMaskId := None),
                                rasterCache = cache',
                                mainContext = mainContext st @ [DrawComposite tempCanvas]\<rparr>)
                 else Inr (st\<lparr>maskedElementsMap :=
                                 (maskedElementsMap st)(clippingMaskId \<mapsto> accumulated)\<rparr>))
         | None \<Rightarrow>
             (case unconditionalRenderElement ext rx h r elementsMap appState
                     (mainContext st, rasterCache st) of
                Inl err \<Rightarrow> Inl (err, st)
              | Inr (context', cache') \<Rightarrow>
                  Inr (st\<lparr>rasterCache := cache', mainContext := context'\<rparr>)))"


section \<open>Actions (actions/actionGroup.tsx)\<close>

text \<open>\<^verbatim>\<open>Array.prototype.findIndex\<close>; \<open>None\<close> is the result \<^verbatim>\<open>-1\<close>.\<close>

fun findIndex :: "('a \<Rightarrow> bool) \<Rightarrow> 'a list \<Rightarrow> nat option" where
  "findIndex P [] = None"
| "findIndex P (x # xs) = (if P x then Some 0 else map_option Suc (findIndex P xs))"

definition getElementIndex :: "heap \<Rightarrow> ref list \<Rightarrow> string \<Rightarrow> nat option" where
  "getElementIndex h elements elementId = findIndex (\<lambda>r. el_id (h r) = elementId) elements"

subsection \<open>\<^verbatim>\<open>actionCropImage\<close>\<close>

text \<open>
  \<open>selectedElements\<close> is the result of \<^verbatim>\<open>app.scene.getSelectedElements(appState)\<close>. The
  action mutates the selected object with \<^verbatim>\<open>Object.assign\<close>, so it works on the store. It
  returns the store, \<^verbatim>\<open>nextElements\<close> and the new \<^verbatim>\<open>lastCropImageId\<close> of the app state
  (\<open>None\<close> when the app state is returned as it was).

  Reading \<^verbatim>\<open>selectedElements[0].type\<close> of an empty selection and reading
  \<^verbatim>\<open>cropProperties.x\<close> of an element without crop properties raise a \<^verbatim>\<open>TypeError\<close>. A crop
  coordinate is a number; the test \<^verbatim>\<open>c ? c : d\<close> takes \<^verbatim>\<open>d\<close> when \<^verbatim>\<open>c\<close> is 0.
\<close>

definition actionCropImage_perform ::
  "heap \<Rightarrow> ref list \<Rightarrow> ref list \<Rightarrow> error + (heap \<times> ref list \<times> string option)" where
  "actionCropImage_perform h selectedElements elements =
     (case selectedElements of
        [] \<Rightarrow> Inl TypeError
      | first # _ \<Rightarrow>
          if length selectedElements \<noteq> 1 \<and> el_type (h first) \<noteq> ''image''
          then Inr (h, elements, None)
          else
            (let selectedElement = h first;
                 selectedElementIndex = getElementIndex h elements (el_id selectedElement)
             in case el_cropProperties selectedElement of
                  None \<Rightarrow> Inl TypeError
                | Some old \<Rightarrow>
                    (let cropProperties =
                           \<lparr>crop_x = (if crop_x old \<noteq> 0 then crop_x old
                                      else el_width selectedElement / 2
                                           - (0.8 * el_width selectedElement) / 2),
                            crop_y = (if crop_y old \<noteq> 0 then crop_y old
                                      else el_height selectedElement / 2
                                           - (0.8 * el_height selectedElement) / 2),
                            crop_width = (if crop_width old \<noteq> 0 then crop_width old
                                          else 0.8 * el_width selectedElement),
                            crop_height = (if crop_height old \<noteq> 0 then crop_height old
                                           else 0.8 * el_height selectedElement)\<rparr>;
                         h' = h(first := selectedElement
                                  \<lparr>el_akhonRenderKoraUchit := Some True,
                                   el_isRenderCropWindow := Some True,
                                   el_isCroppedImage := Some True,
                                   el_cropProperties := Some cropProperties\<rparr>);
                         nextElements = (case selectedElementIndex of
                                           Some i \<Rightarrow> elements[i := first]
                                         | None \<Rightarrow> elements)
                     in Inr (h', nextElements, Some (el_id selectedElement)))))"

text \<open>
  The spec's invariant: the crop rectangle is contained within \<open>[0, 0, width, height]\<close> in
  the local coordinates of the element.
\<close>

definition spec_cropContained :: "element \<Rightarrow> CropProperties \<Rightarrow> bool" where
  "spec_cropContained element cropProperties \<longleftrightarrow>
     0 \<le> crop_x cropProperties \<and> 0 \<le> crop_y cropProperties
     \<and> 0 \<le> crop_width cropProperties \<and> 0 \<le> crop_height cropProperties
     \<and> crop_x cropProperties + crop_width cropProperties \<le> el_width element
     \<and> crop_y cropProperties + crop_height cropProperties \<le> el_height element"

subsection \<open>\<^verbatim>\<open>actionMakeClippingMask\<close>\<close>

text \<open>
  Modelled from the spec: \<^verbatim>\<open>isElementInGroup\<close> and \<^verbatim>\<open>getElementsInGroup\<close> of
  \<^verbatim>\<open>groups.ts\<close>, which is not among the sources: group membership is the list of group
  ids of the shape.
\<close>

definition isElementInGroup :: "element \<Rightarrow> string \<Rightarrow> bool" where
  "isElementInGroup element groupId \<longleftrightarrow> groupId \<in> set (el_groupIds element)"

definition getElementsInGroup :: "element list \<Rightarrow> string \<Rightarrow> element list" where
  "getElementsInGroup elements groupId = filter (\<lambda>element. isElementInGroup element groupId) elements"

text \<open>
  What the action takes from outside the sources. \<open>gx_selectedElements\<close> is the result
  of \<^verbatim>\<open>app.scene.getSelectedElements\<close>, \<open>gx_selectedGroupIds\<close> that of
  \<^verbatim>\<open>getSelectedGroupIds(appState)\<close>, \<open>gx_editingGroupId\<close> is \<^verbatim>\<open>appState.editingGroupId\<close>,
  \<open>gx_newGroupId\<close> and \<open>gx_clippingMaskId\<close> are the two results of \<^verbatim>\<open>randomId()\<close>. \<open>addToGroup\<close> (\<^verbatim>\<open>groups.ts\<close>) and \<open>newElementWith\<close>
  (\<^verbatim>\<open>mutateElement.ts\<close>, here with the new \<^verbatim>\<open>groupIds\<close> as its update) are parameters.

  Modelled from the spec: \<^verbatim>\<open>syncMovedIndices\<close> of \<^verbatim>\<open>fractionalIndex.ts\<close>, which is not
  among the sources, returns the elements in the order given and assigns fractional order
  keys (\<open>el_index\<close>); the keys it assigns are the parameter \<open>newIndex\<close>.

  The action works on element objects held in arrays; here an array is the list of the
  current fields of its objects. The step that moves elements out of their frames touches
  fields that the record does not carry, and the selection part of the returned app state
  is not modelled.
\<close>

record groupExt =
  gx_selectedElements :: "element list"
  gx_selectedGroupIds :: "string list"
  gx_editingGroupId :: "string option"
  gx_newGroupId :: string
  gx_clippingMaskId :: string
  addToGroup :: "string list \<Rightarrow> string \<Rightarrow> string option \<Rightarrow> string list"
  newElementWith :: "element \<Rightarrow> string list \<Rightarrow> element"
  newIndex :: "element list \<Rightarrow> nat \<Rightarrow> string"

definition syncMovedIndices :: "groupExt \<Rightarrow> element list \<Rightarrow> element list" where
  "syncMovedIndices gx elements =
     map (\<lambda>(i, element). element\<lparr>el_index := newIndex gx elements i\<rparr>) (enumerate 0 elements)"

text \<open>
  \<^verbatim>\<open>nextElements.lastIndexOf(lastElementInGroup)\<close> looks for the object itself, which sits
  at the last position that holds a member of the group; \<open>None\<close> is \<^verbatim>\<open>-1\<close>, the result for
  the \<^verbatim>\<open>undefined\<close> last element of an empty group.
\<close>

fun lastIndexWhere :: "('a \<Rightarrow> bool) \<Rightarrow> 'a list \<Rightarrow> nat option" where
  "lastIndexWhere P [] = None"
| "lastIndexWhere P (x # xs) =
     (case lastIndexWhere P xs of
        Some i \<Rightarrow> Some (Suc i)
      | None \<Rightarrow> if P x then Some 0 else None)"

datatype ActionResult = NoChange | Captured "element list"

definition actionMakeClippingMask_perform :: "groupExt \<Rightarrow> element list \<Rightarrow> ActionResult" where
  "actionMakeClippingMask_perform gx elements =
     (if length (gx_selectedElements gx) < 2 then NoChange
      else if (case gx_selectedGroupIds gx of
                 [selectedGroupId] \<Rightarrow>
                   (let elementIdsInGroup =
                          set (map el_id (getElementsInGroup elements selectedGroupId));
                        selectedElementIds = set (map el_id (gx_selectedElements gx));
                        combinedSet = elementIdsInGroup \<union> selectedElementIds
                    in card combinedSet = card elementIdsInGroup)
               | _ \<Rightarrow> False)
      then NoChange
      else
        (let selectElementIds = set (map el_id (gx_selectedElements gx));
             nextElements =
               map (\<lambda>element.
                      if el_id element \<notin> selectElementIds then element
                      else newElementWith gx element
                             (addToGroup gx (el_groupIds element) (gx_newGroupId gx)
                                (gx_editingGroupId gx)))
                   elements;
             clippingMaskElementsLength = length (getElementsInGroup nextElements (gx_newGroupId gx));
             elementsInGroup =
               map (\<lambda>(Index, elementInGroup).
                      elementInGroup\<lparr>el_isMakeClippingMask := True,
                                     el_clippingMaskId := Some (gx_clippingMaskId gx),
                                     el_cmGroupLength := Some clippingMaskElementsLength,
                                     el_cmeIndex := Some (Index + 1)\<rparr>)
                   (enumerate 0 (getElementsInGroup nextElements (gx_newGroupId gx)));
             lastGroupElementIndex =
               lastIndexWhere (\<lambda>element. isElementInGroup element (gx_newGroupId gx)) nextElements;
             elementsAfterGroup =
               (case lastGroupElementIndex of
                  Some i \<Rightarrow> drop (i + 1) nextElements
                | None \<Rightarrow> nextElements);
             elementsBeforeGroup =
               filter (\<lambda>updatedElement. \<not> isElementInGroup updatedElement (gx_newGroupId gx))
                 (case lastGroupElementIndex of
                    Some i \<Rightarrow> take i nextElements
                  | None \<Rightarrow> butlast nextElements);
             reorderedElements =
               syncMovedIndices gx (elementsBeforeGroup @ elementsInGroup @ elementsAfterGroup)
         in Captured reorderedElements))"

section \<open>The analytic bound as the spec words it\<close>

text \<open>
  The spec's description of the analytic bezier bound, per axis, in exact arithmetic: the
  quadratic \<open>a t\<^sup>2 + b t + c\<close> with \<open>a = 3i - 6j + 3k\<close>, \<open>b = 6j - 6i\<close>, \<open>c = 3i\<close>, where
  \<open>i = P1 - P0\<close>, \<open>j = P2 - P1\<close>, \<open>k = P3 - P2\<close>.
\<close>

definition spec_quadratic :: "real \<Rightarrow> real \<Rightarrow> real \<Rightarrow> real \<Rightarrow> real \<Rightarrow> real" where
  "spec_quadratic p0 p1 p2 p3 t =
     (3 * (p1 - p0) - 6 * (p2 - p1) + 3 * (p3 - p2)) * t\<^sup>2
     + (6 * (p2 - p1) - 6 * (p1 - p0)) * t + 3 * (p1 - p0)"

text \<open>The Bernstein cubic of the control values \<open>p0\<close>, \<open>p1\<close>, \<open>p2\<close>, \<open>p3\<close> at \<open>t\<close>.\<close>

definition spec_bernstein :: "real \<Rightarrow> real \<Rightarrow> real \<Rightarrow> real \<Rightarrow> real \<Rightarrow> real" where
  "spec_bernstein t p0 p1 p2 p3 =
     (1 - t) ^ 3 * p0 + 3 * (1 - t)\<^sup>2 * t * p1 + 3 * (1 - t) * t\<^sup>2 * p2 + t ^ 3 * p3"

text \<open>
  The candidate values of an axis: both endpoints, and the Bernstein cubic at the roots
  of the quadratic that lie in \<open>[0, 1]\<close>. The bound of the axis is to be the least and the
  greatest candidate.
\<close>

definition spec_candidate :: "real \<Rightarrow> real \<Rightarrow> real \<Rightarrow> real \<Rightarrow> real \<Rightarrow> bool" where
  "spec_candidate p0 p1 p2 p3 v \<longleftrightarrow>
     v = p0 \<or> v = p3
     \<or> (\<exists>t. 0 \<le> t \<and> t \<le> 1 \<and> spec_quadratic p0 p1 p2 p3 t = 0
             \<and> v = spec_bernstein t p0 p1 p2 p3)"

section \<open>The bounds cache and the common bounds as the spec words them\<close>

text \<open>
  The spec's condition for a cached value: the stored version equals the version of the
  shape, and the shape is not a label bound to a container.
\<close>

definition spec_cacheHit :: "heap \<Rightarrow> BoundsCache \<Rightarrow> ref \<Rightarrow> bool" where
  "spec_cacheHit h boundsCache r \<longleftrightarrow>
     (case boundsCache r of
        Some cached \<Rightarrow> ce_version cached = el_version (h r)
      | None \<Rightarrow> False)
     \<and> \<not> isBoundToContainer (h r)"

text \<open>
  The outcome of a recomputation: the freshly calculated bounds, and the cache with
  these bounds stored under the current version of the element.
\<close>

definition recomputed ::
  "boundsExt \<Rightarrow> heap \<Rightarrow> BoundsCache \<Rightarrow> ref \<Rightarrow> ElementsMap \<Rightarrow> Bounds \<times> BoundsCache" where
  "recomputed ext h boundsCache r elementsMap =
     (calculateBounds ext h (h r) elementsMap,
      boundsCache(r \<mapsto> \<lparr>ce_bounds = calculateBounds ext h (h r) elementsMap,
                          ce_version = el_version (h r)\<rparr>))"

text \<open>The union rectangle of a list of bounds, component by component.\<close>

definition minX_of :: "Bounds \<Rightarrow> num" where
  "minX_of b = fst b"

definition minY_of :: "Bounds \<Rightarrow> num" where
  "minY_of b = fst (snd b)"

definition maxX_of :: "Bounds \<Rightarrow> num" where
  "maxX_of b = fst (snd (snd b))"

definition maxY_of :: "Bounds \<Rightarrow> num" where
  "maxY_of b = snd (snd (snd b))"

definition spec_unionBounds :: "Bounds list \<Rightarrow> Bounds" where
  "spec_unionBounds bs =
     (Min (set (map minX_of bs)), Min (set (map minY_of bs)),
      Max (set (map maxX_of bs)), Max (set (map maxY_of bs)))"

text \<open>
  One turn of the loop of \<open>getCommonBounds\<close> when the bounds of every element are given
  by a function, without the cache.
\<close>

definition pureStep :: "(ref \<Rightarrow> Bounds) \<Rightarrow> ref \<Rightarrow> Bounds \<Rightarrow> Bounds" where
  "pureStep f r acc = (case acc of (minX, minY, maxX, maxY) \<Rightarrow>
      (min minX (minX_of (f r)), min minY (minY_of (f r)),
       max maxX (maxX_of (f r)), max maxY (maxY_of (f r))))"

section \<open>The renderer as the spec words it\<close>

text \<open>
  The containing-frame opacity of an element, in the spec's words: the opacity of the
  frame that contains the element, when there is one. The raster cache entry of an
  element is to be regenerated when this value has changed since the entry was generated.
\<close>

definition spec_containingFrameOpacity ::
  "renderExt \<Rightarrow> heap \<Rightarrow> ref \<Rightarrow> ElementsMap \<Rightarrow> real option" where
  "spec_containingFrameOpacity rx h r elementsMap =
     map_option (\<lambda>frame. el_opacity (h frame)) (getContainingFrame rx h (h r) elementsMap)"

text \<open>The drawable kinds that the claims name as recognized.\<close>

definition spec_recognized :: "string \<Rightarrow> bool" where
  "spec_recognized ty \<longleftrightarrow>
     ty \<in> set [''rectangle'', ''iframe'', ''embeddable'', ''diamond'', ''ellipse'', ''arrow'',
               ''line'', ''freedraw'', ''image'', ''text'', ''frame'', ''magicframe'']"

text \<open>
  The recognized kinds other than the two frame kinds: the kinds for which the dispatch
  reaches \<open>drawElementOnCanvas\<close>. A frame is outlined by \<open>unconditionalRenderElement\<close>
  itself.
\<close>

definition drawable_on_canvas :: "string \<Rightarrow> bool" where
  "drawable_on_canvas ty \<longleftrightarrow>
     ty \<in> set [''rectangle'', ''iframe'', ''embeddable'', ''diamond'', ''ellipse'', ''arrow'',
               ''line'', ''freedraw'', ''image'', ''text'']"

section \<open>The clipping-mask properties of an element\<close>

text \<open>
  The four properties that \<^verbatim>\<open>actionMakeClippingMask\<close> assigns and the compositor reads:
  \<^verbatim>\<open>isMakeClippingMask\<close>, \<^verbatim>\<open>clippingMaskId\<close>, \<^verbatim>\<open>cmGroupLength\<close> and \<^verbatim>\<open>cmeIndex\<close>.
\<close>

definition maskProperties :: "element \<Rightarrow> bool \<times> string option \<times> nat option \<times> nat option" where
  "maskProperties element =
     (el_isMakeClippingMask element, el_clippingMaskId element,
      el_cmGroupLength element, el_cmeIndex element)"

section \<open>Example values\<close>

text \<open>
  A shape of a given type, position and size with angle 0, version 1, a single point and
  no optional property; and collaborators for a scene without containers, bound labels
  or frames, where order keys compare by their length.
\<close>

definition exampleElement :: "string \<Rightarrow> real \<Rightarrow> real \<Rightarrow> real \<Rightarrow> real \<Rightarrow> element" where
  "exampleElement ty x y w hgt =
     \<lparr>el_id = ''a'', el_type = ty, el_x = x, el_y = y, el_width = w, el_height = hgt,
      el_angle = 0, el_version = 1, el_opacity = 100, el_index = ''a0'',
      el_points = ((0, 0), []), el_strokeWidth = 1, el_containerId = None, el_groupIds = [],
      el_isPathElement = False, el_isMakeClippingMask = False, el_clippingMaskId = None,
      el_cmGroupLength = None, el_cmeIndex = None, el_akhonRenderKoraUchit = None,
      el_isRenderCropWindow = None, el_isCroppedImage = None, el_cropProperties = None\<rparr>"

definition exampleBoundsExt :: boundsExt where
  "exampleBoundsExt =
     \<lparr>getContainerElement = (\<lambda>h element elementsMap. None),
      getBoundTextElement = (\<lambda>h element elementsMap. None),
      lee_getElementAbsoluteCoords = (\<lambda>h element elementsMap includeBoundText.
         (el_x element, el_y element,
          el_x element + el_width element, el_y element + el_height element,
          el_x element + el_width element / 2, el_y element + el_height element / 2)),
      lee_getBoundTextElementPosition = (\<lambda>h container element elementsMap. (0, 0)),
      lee_getMinMaxXYWithBoundText = (\<lambda>h element elementsMap coords boundText. coords),
      linearShape = (\<lambda>element. ((''path'', []), []))\<rparr>"

definition exampleRenderExt :: renderExt where
  "exampleRenderExt =
     \<lparr>getContainingFrame = (\<lambda>h element elementsMap. None),
      imageLoaded = (\<lambda>element. True),
      devicePixelRatio = 1,
      localeCompare = (\<lambda>a b. int (length a) - int (length b))\<rparr>"

definition exampleAppState :: AppState where
  "exampleAppState =
     \<lparr>selectedElementIds = (\<lambda>elementId. True), theme = ''light'', zoom_value = 1,
      shouldCacheIgnoreZoom = False, frameRendering_enabled = True,
      frameRendering_outline = True\<rparr>"

text \<open>A scene of two rectangles with different ids, and a store that holds one element.\<close>

definition exampleScene :: heap where
  "exampleScene r =
     (if r = 0 then exampleElement ''rectangle'' 0 0 10 10
      else (exampleElement ''rectangle'' 5 5 20 20)\<lparr>el_id := ''b''\<rparr>)"

definition singleton :: "element \<Rightarrow> heap" where
  "singleton element = (\<lambda>r. element)"

text \<open>
  Collaborators of the hit test for which the rotation handle and the \<^verbatim>\<open>n\<close> handle
  occupy the same square and every point counts as lying on every side.
\<close>

definition exampleResizeExt :: "(unit, unit, unit) resizeExt" where
  "exampleResizeExt =
     \<lparr>getTransformHandles = (\<lambda>h element zoom elementsMap pointerType omitSides.
         [(''n'', Some (0, 0, 10, 10)), (''rotation'', Some (0, 0, 10, 10))]),
      getCropTransformHandles = (\<lambda>h element zoom elementsMap pointerType omitSides. []),
      getOmitSidesForDevice = (\<lambda>device. ()),
      canResizeFromSides = (\<lambda>device. True),
      angleToDegrees = (\<lambda>angle. angle * 180 / pi),
      pointOnLine = (\<lambda>point line threshold. True),
      pointRotate = (\<lambda>point angle center. point),
      SIDE_RESIZING_THRESHOLD = 16\<rparr>"


text \<open>
  The raster cache entry that is generated for a rectangle of 10 by 10 at zoom 1 in the
  light theme, without bound text and with a containing-frame opacity of 100.
\<close>

definition exampleEntry :: "ref \<Rightarrow> ElementWithCanvas" where
  "exampleEntry r =
     \<lparr>ewc_element = r,
      ewc_canvas = \<lparr>cv_width = 50, cv_height = 50, cv_content = [RoughDraw r]\<rparr>,
      ewc_theme = ''light'', ewc_scale = 1, ewc_zoomValue = 1,
      ewc_canvasOffsetX = 0, ewc_canvasOffsetY = 0,
      ewc_boundTextElementVersion = None, ewc_containingFrameOpacity = 100\<rparr>"


text \<open>
  A rectangle (object 0) inside a frame (every other object) of a given opacity, and
  the \<^verbatim>\<open>getContainingFrame\<close> of that scene.
\<close>

definition exampleFramed :: "real \<Rightarrow> heap" where
  "exampleFramed opacity r =
     (if r = 0 then exampleElement ''rectangle'' 0 0 10 10
      else (exampleElement ''frame'' 0 0 100 100)\<lparr>el_id := ''f'', el_opacity := opacity\<rparr>)"

definition exampleFrameExt :: renderExt where
  "exampleFrameExt =
     \<lparr>getContainingFrame = (\<lambda>h element elementsMap.
         if el_type element = ''frame'' then None else Some (Suc 0)),
      imageLoaded = (\<lambda>element. True),
      devicePixelRatio = 1,
      localeCompare = (\<lambda>a b. int (length a) - int (length b))\<rparr>"

text \<open>An image of 100 by 100 with given crop properties.\<close>

definition exampleImage :: "CropProperties \<Rightarrow> element" where
  "exampleImage cropProperties =
     (exampleElement ''image'' 0 0 100 100)\<lparr>el_cropProperties := Some cropProperties\<rparr>"

text \<open>
  Three rectangles \<^verbatim>\<open>a\<close>, \<^verbatim>\<open>b\<close>, \<^verbatim>\<open>c\<close>, of which \<^verbatim>\<open>a\<close> and \<^verbatim>\<open>c\<close> are selected
  and none is grouped; new group ids are prepended, copies keep all other fields, and the
  order keys are left as they are.
\<close>

definition exampleShapes :: "element list" where
  "exampleShapes =
     [exampleElement ''rectangle'' 0 0 10 10,
      (exampleElement ''rectangle'' 5 5 10 10)\<lparr>el_id := ''b''\<rparr>,
      (exampleElement ''rectangle'' 9 9 10 10)\<lparr>el_id := ''c''\<rparr>]"

definition exampleGroupExt :: groupExt where
  "exampleGroupExt =
     \<lparr>gx_selectedElements =
        [exampleElement ''rectangle'' 0 0 10 10,
         (exampleElement ''rectangle'' 9 9 10 10)\<lparr>el_id := ''c''\<rparr>],
      gx_selectedGroupIds = [],
      gx_editingGroupId = None,
      gx_newGroupId = ''g'',
      gx_clippingMaskId = ''m'',
      addToGroup = (\<lambda>groupIds newGroupId editingGroupId. newGroupId # groupIds),
      newElementWith = (\<lambda>element groupIds. element\<lparr>el_groupIds := groupIds\<rparr>),
      newIndex = (\<lambda>elements i. el_index (elements ! i))\<rparr>"

text \<open>The crop rectangle of the whole example image.\<close>

definition fullCrop :: CropProperties where
  "fullCrop = \<lparr>crop_x = 0, crop_y = 0, crop_width = 100, crop_height = 100\<rparr>"

section \<open>Verification\<close>

subsection \<open>Rounding to the nearest double\<close>

text \<open>
  How \<open>double\<close> is evaluated. Between \<open>2 ^ 52\<close> and \<open>2 ^ 53\<close> times the ulp, a real within
  half an ulp of a multiple of the ulp is rounded to that multiple (\<open>double_near\<close>), and a
  real halfway between two multiples to the even one (\<open>double_tie\<close>). An integer below
  \<open>2 ^ 53\<close> in magnitude, times a power of two, is a double (\<open>double_exact\<close>).
\<close>

lemma roundTiesToEven_near:
  assumes "\<bar>y - of_int m\<bar> < 1 / 2"
  shows "roundTiesToEven y = m"
proof (cases "of_int m \<le> y")
  case True
  with assms have f: "\<lfloor>y\<rfloor> = m" by (intro floor_unique) auto
  from True assms have "y - of_int m < 1 / 2" by auto
  with f show ?thesis by (simp add: roundTiesToEven_def Let_def)
next
  case False
  with assms have f: "\<lfloor>y\<rfloor> = m - 1" by (intro floor_unique) auto
  from False assms have "1 / 2 < y - of_int (m - 1)" by auto
  with f show ?thesis by (simp add: roundTiesToEven_def Let_def)
qed

lemma roundTiesToEven_of_int: "roundTiesToEven (of_int n) = n"
  by (rule roundTiesToEven_near) simp

lemma powr_int_diff: "2 powr of_int (int p - int q) = (2::real) ^ p / 2 ^ q"
proof -
  have "(2::real) powr of_int (int p - int q) = 2 powr (real p - real q)" by simp
  also have "\<dots> = 2 powr real p / 2 powr real q" by (simp add: powr_diff)
  also have "\<dots> = 2 ^ p / 2 ^ q" by (simp add: powr_realpow)
  finally show ?thesis .
qed

lemma double_ulp:
  assumes u: "ulp = 2 ^ p / 2 ^ q" and lo: "2 ^ 52 * ulp \<le> \<bar>x\<bar>" and hi: "\<bar>x\<bar> < 2 ^ 53 * ulp"
  shows "double x = of_int (roundTiesToEven (x / ulp)) * ulp"
proof -
  have up: "0 < ulp" unfolding u by simp
  with lo have x0: "0 < \<bar>x\<bar>" by (smt (verit) mult_pos_pos zero_less_power)
  have "2 powr of_int (52 + int p - int q) = (2::real) ^ (52 + p) / 2 ^ q"
    using powr_int_diff[of "52 + p" q] by (simp add: algebra_simps)
  then have a: "2 powr of_int (52 + int p - int q) = 2 ^ 52 * ulp"
    unfolding u by (simp add: power_add)
  have "2 powr of_int (52 + int p - int q + 1) = (2::real) ^ (53 + p) / 2 ^ q"
    using powr_int_diff[of "53 + p" q] by (simp add: algebra_simps)
  then have b: "2 powr of_int (52 + int p - int q + 1) = 2 ^ 53 * ulp"
    unfolding u by (simp add: power_add)
  have "\<lfloor>log 2 \<bar>x\<bar>\<rfloor> = 52 + int p - int q"
    using floor_log_eq_powr_iff[of "\<bar>x\<bar>" 2 "52 + int p - int q"] x0 lo hi a b by simp
  then have "2 powr of_int (\<lfloor>log 2 \<bar>x\<bar>\<rfloor> - 52) = ulp"
    using powr_int_diff[of p q] u by simp
  with x0 show ?thesis by (simp add: double_def Let_def)
qed

lemma double_near:
  assumes u: "ulp = 2 ^ p / 2 ^ q" and lo: "2 ^ 52 * ulp \<le> \<bar>x\<bar>" and hi: "\<bar>x\<bar> < 2 ^ 53 * ulp"
    and near: "\<bar>x - of_int m * ulp\<bar> < ulp / 2"
  shows "double x = of_int m * ulp"
proof -
  have up: "0 < ulp" unfolding u by simp
  have "x / ulp - of_int m = (x - of_int m * ulp) / ulp"
    using up by (simp add: field_simps)
  then have "\<bar>x / ulp - of_int m\<bar> = \<bar>x - of_int m * ulp\<bar> / ulp"
    by (simp only: abs_divide abs_of_pos[OF up])
  also have "\<dots> < 1 / 2" using near up by (simp add: field_simps)
  finally have "roundTiesToEven (x / ulp) = m" by (rule roundTiesToEven_near)
  with double_ulp[OF u lo hi] show ?thesis by simp
qed

lemma double_0: "double 0 = 0" by (simp add: double_def)

lemma double_exact:
  assumes x: "x = of_int m * 2 ^ p / 2 ^ q" and m: "\<bar>m\<bar> < 2 ^ 53"
  shows "double x = x"
proof (cases "x = 0")
  case True
  then show ?thesis by (simp add: double_def)
next
  case False
  define e where "e = \<lfloor>log 2 \<bar>x\<bar>\<rfloor>"
  define d where "d = int p - int q"
  define ulp where "ulp = (2::real) powr of_int (e - 52)"
  have up: "0 < ulp" by (simp add: ulp_def)
  have s: "(2::real) ^ p / 2 ^ q = 2 powr of_int d"
    unfolding d_def by (rule powr_int_diff[symmetric])
  have x': "x = of_int m * 2 powr of_int d"
    unfolding x s[symmetric] by simp
  have ax: "\<bar>x\<bar> = of_int \<bar>m\<bar> * 2 powr of_int d"
    unfolding x' by (simp add: abs_mult)
  from m have "(of_int \<bar>m\<bar> :: real) < of_int (2 ^ 53)"
    by (simp only: of_int_less_iff)
  then have m': "(of_int \<bar>m\<bar> :: real) < 2 ^ 53" by simp
  have "\<bar>x\<bar> < 2 ^ 53 * 2 powr of_int d"
    unfolding ax by (rule mult_strict_right_mono[OF m']) simp
  also have "\<dots> = 2 powr 53 * 2 powr of_int d" by simp
  also have "\<dots> = 2 powr (53 + of_int d)" by (simp only: powr_add)
  finally have lt: "\<bar>x\<bar> < 2 powr (53 + of_int d)" .
  from False have x0: "0 < \<bar>x\<bar>" by simp
  have "\<lfloor>log 2 \<bar>x\<bar>\<rfloor> = e" by (simp add: e_def)
  then have "2 powr of_int e \<le> \<bar>x\<bar>"
    using floor_log_eq_powr_iff[of "\<bar>x\<bar>" 2 e] x0 by simp
  with lt have "(2::real) powr of_int e < 2 powr (53 + of_int d)" by linarith
  then have "(of_int e :: real) < 53 + of_int d" by simp
  then have "(of_int e :: real) < of_int (53 + d)" by simp
  then have "e < 53 + d" by (simp only: of_int_less_iff)
  then have nn: "0 \<le> 52 + d - e" by linarith
  define k where "k = nat (52 + d - e)"
  have k: "int k = 52 + d - e" using nn by (simp add: k_def)
  have "(of_int d :: real) - of_int (e - 52) = of_int (int k)"
    unfolding k by simp
  then have dk: "(of_int d :: real) - of_int (e - 52) = real k" by simp
  have "x / ulp = of_int m * (2 powr of_int d / 2 powr of_int (e - 52))"
    unfolding x' ulp_def by simp
  also have "2 powr of_int d / 2 powr of_int (e - 52)
      = (2::real) powr (of_int d - of_int (e - 52))"
    by (simp only: powr_diff)
  also have "\<dots> = 2 powr real k" by (simp only: dk)
  also have "\<dots> = 2 ^ k" by (simp add: powr_realpow)
  finally have xu: "x / ulp = of_int (m * 2 ^ k)" by simp
  then have "roundTiesToEven (x / ulp) = m * 2 ^ k"
    by (simp only: roundTiesToEven_of_int)
  then have "double x = of_int (m * 2 ^ k) * ulp"
    using False by (simp add: double_def Let_def ulp_def e_def)
  also have "\<dots> = x / ulp * ulp" by (simp only: xu)
  also have "\<dots> = x" using up by simp
  finally show ?thesis .
qed

lemma roundTiesToEven_tie:
  "roundTiesToEven (of_int f + 1 / 2) = (if even f then f else f + 1)"
proof -
  have "\<lfloor>of_int f + (1 / 2 :: real)\<rfloor> = f" by (intro floor_unique) auto
  then show ?thesis by (simp add: roundTiesToEven_def Let_def)
qed

lemma double_tie:
  assumes u: "ulp = 2 ^ p / 2 ^ q" and lo: "2 ^ 52 * ulp \<le> \<bar>x\<bar>" and hi: "\<bar>x\<bar> < 2 ^ 53 * ulp"
    and tie: "x = (of_int f + 1 / 2) * ulp"
  shows "double x = of_int (if even f then f else f + 1) * ulp"
proof -
  have up: "0 < ulp" unfolding u by simp
  then have "x / ulp = of_int f + 1 / 2" unfolding tie by simp
  then have "roundTiesToEven (x / ulp) = (if even f then f else f + 1)"
    by (simp only: roundTiesToEven_tie)
  with double_ulp[OF u lo hi] show ?thesis by simp
qed

lemma double_sqrt:
  assumes u: "ulp = 2 ^ p / 2 ^ q" and m: "2 ^ 52 < m" "m < 2 ^ 53"
    and l: "((of_int m - 1 / 2) * ulp)\<^sup>2 < s" and h: "s < ((of_int m + 1 / 2) * ulp)\<^sup>2"
  shows "double (sqrt s) = of_int m * ulp"
proof -
  have up: "0 < ulp" unfolding u by simp
  from m have "(2::int) ^ 52 + 1 \<le> m" by simp
  then have "(of_int ((2::int) ^ 52 + 1) :: real) \<le> of_int m" by (simp only: of_int_le_iff)
  then have m1: "(2::real) ^ 52 + 1 \<le> of_int m" by simp
  from m have "m + 1 \<le> (2::int) ^ 53" by simp
  then have "(of_int (m + 1) :: real) \<le> of_int ((2::int) ^ 53)" by (simp only: of_int_le_iff)
  then have m2: "(of_int m :: real) + 1 \<le> 2 ^ 53" by simp
  have lpos: "0 \<le> (of_int m - 1 / 2) * ulp" using m1 up by simp
  have hpos: "0 \<le> (of_int m + 1 / 2) * ulp" using m1 up by simp
  from l have a: "(of_int m - 1 / 2) * ulp < sqrt s"
    by (rule real_less_rsqrt)
  from h hpos have b: "sqrt s < (of_int m + 1 / 2) * ulp"
    by (intro real_less_lsqrt) auto
  have "2 ^ 52 * ulp \<le> (of_int m - 1 / 2) * ulp"
    using m1 up by simp
  with a lpos have lo: "2 ^ 52 * ulp \<le> \<bar>sqrt s\<bar>" by linarith
  have "(of_int m + 1 / 2) * ulp \<le> 2 ^ 53 * ulp"
    using m2 up by simp
  with b a lpos have hi: "\<bar>sqrt s\<bar> < 2 ^ 53 * ulp" by linarith
  have near: "\<bar>sqrt s - of_int m * ulp\<bar> < ulp / 2"
    unfolding abs_less_iff using a b by (simp add: algebra_simps)
  from u lo hi near show ?thesis by (rule double_near)
qed

lemma double_1: "double 1 = 1"
  using double_exact[where x = 1 and m = 1 and p = 0 and q = 0] by simp

lemma double_numeral: "numeral n < (2::int) ^ 53 \<Longrightarrow> double (numeral n) = numeral n"
  using double_exact[where x = "numeral n" and m = "numeral n" and p = 0 and q = 0] by simp

lemma double_neg_numeral:
  "numeral n < (2::int) ^ 53 \<Longrightarrow> double (- numeral n) = - numeral n"
  using double_exact[where x = "- numeral n" and m = "- numeral n" and p = 0 and q = 0] by simp

subsection \<open>The cubic bezier bound\<close>

lemmas fl_defs = fadd_def fsub_def fmul_def fdiv_def fpow_def fsqrt_def

lemma double_dyadic:
  "double (1 / 2) = 1 / 2" "double (1 / 4) = 1 / 4" "double (1 / 8) = 1 / 8"
  "double (3 / 2) = 3 / 2" "double (3 / 4) = 3 / 4" "double (3 / 8) = 3 / 8"
  "double (75 / 4) = 75 / 4" "double (75 / 2) = 75 / 2"
  using double_exact[where x = "1 / 2" and m = 1 and p = 0 and q = 1]
    double_exact[where x = "1 / 4" and m = 1 and p = 0 and q = 2]
    double_exact[where x = "1 / 8" and m = 1 and p = 0 and q = 3]
    double_exact[where x = "3 / 2" and m = 3 and p = 0 and q = 1]
    double_exact[where x = "3 / 4" and m = 3 and p = 0 and q = 2]
    double_exact[where x = "3 / 8" and m = 3 and p = 0 and q = 3]
    double_exact[where x = "75 / 4" and m = 75 and p = 0 and q = 2]
    double_exact[where x = "75 / 2" and m = 75 and p = 0 and q = 1]
  by simp_all

lemma sqrt_360000: "sqrt 360000 = 600"
  by (rule real_sqrt_unique) simp_all

lemma bezier_at_0: "getBezierValueForT 0 0 p1 p2 p3 = 0"
  by (simp add: getBezierValueForT_def Let_def fl_defs double_0 double_1 double_numeral)

text \<open>The two axes of the spec's example, whose intermediate values are all doubles.\<close>

lemma solveQuadratic_x: "solveQuadratic 0 0 100 100 = Some (Some 0, Some 100)"
  by (simp add: solveQuadratic_def getBezierValueForT_def Let_def fl_defs double_0 double_1
      double_numeral double_neg_numeral sqrt_360000)

lemma solveQuadratic_example: "solveQuadratic 0 50 50 0 = Some (Some (75 / 2), Some (75 / 2))"
  by (simp add: solveQuadratic_def getBezierValueForT_def Let_def fl_defs double_0 double_1
      double_numeral double_neg_numeral double_dyadic power2_eq_square power3_eq_cube)

text \<open>The doubles that the literals \<^verbatim>\<open>50.1\<close> and \<^verbatim>\<open>0.3\<close> denote.\<close>

lemma double_literals:
  "double (501 / 10) = 7050948166601933 / 2 ^ 47"
  "double (3 / 10) = 5404319552844595 / 2 ^ 54"
  using double_near[where x = "501 / 10" and ulp = "2 ^ 0 / 2 ^ 47" and p = 0 and q = 47
      and m = 7050948166601933]
    double_near[where x = "3 / 10" and ulp = "2 ^ 0 / 2 ^ 54" and p = 0 and q = 54
      and m = 5404319552844595]
  by simp_all

text \<open>
  The axis with the control values 0, 50, 50.1, 0.3, one operation after the other. The
  rounded coefficient \<open>a\<close> is \<open>- 1 / 2 ^ 45\<close>, not 0, so the quadratic formula is used;
  the root of the discriminant rounds to \<open>-b\<close>, the difference
  \<^verbatim>\<open>-b - Math.sqrt(sqrtPart)\<close> is 0 and \<open>t2\<close> is 0, the start of the curve, while \<open>t1\<close> is
  far below 0.
\<close>

lemma solveQuadratic_failing:
  "solveQuadratic 0 50 (double (501 / 10)) (double (3 / 10)) = Some (None, Some 0)"
proof -
  have y1: "fsub 50 0 = 50"
    using double_exact[where x = "50 - 0" and m = "25" and p = 1 and q = 0]
    by (simp add: fsub_def)
  have y2: "fsub (7050948166601933 / 2 ^ 47) 50 = 14073748835533 / 2 ^ 47"
    using double_exact[where x = "(7050948166601933 / 2 ^ 47) - 50" and m = "14073748835533" and p = 0 and q = 47]
    by (simp add: fsub_def)
  have y3: "fsub (5404319552844595 / 2 ^ 54) (7050948166601933 / 2 ^ 47) = - (7008726920095335 / 2 ^ 47)"
    using double_near[where x = "(5404319552844595 / 2 ^ 54) - (7050948166601933 / 2 ^ 47)" and ulp = "2 ^ 0 / 2 ^ 47" and p = 0 and q = 47 and m = "-7008726920095335"]
    by (simp add: fsub_def)
  have y4: "fmul 3 50 = 150"
    using double_exact[where x = "3 * 50" and m = "75" and p = 1 and q = 0]
    by (simp add: fmul_def)
  have y5: "fmul 6 (14073748835533 / 2 ^ 47) = 42221246506599 / 2 ^ 46"
    using double_exact[where x = "6 * (14073748835533 / 2 ^ 47)" and m = "42221246506599" and p = 0 and q = 46]
    by (simp add: fmul_def)
  have y6: "fsub 150 (42221246506599 / 2 ^ 46) = 1314136297517875 / 2 ^ 43"
    using double_tie[where x = "150 - (42221246506599 / 2 ^ 46)" and ulp = "2 ^ 0 / 2 ^ 45" and p = 0 and q = 45 and f = "5256545190071500"]
    by (simp add: fsub_def)
  have y7: "fmul 3 (- (7008726920095335 / 2 ^ 47)) = - (5256545190071501 / 2 ^ 45)"
    using double_near[where x = "3 * (- (7008726920095335 / 2 ^ 47))" and ulp = "2 ^ 0 / 2 ^ 45" and p = 0 and q = 45 and m = "-5256545190071501"]
    by (simp add: fmul_def)
  have y8: "fadd (1314136297517875 / 2 ^ 43) (- (5256545190071501 / 2 ^ 45)) = - (1 / 2 ^ 45)"
    using double_exact[where x = "(1314136297517875 / 2 ^ 43) + (- (5256545190071501 / 2 ^ 45))" and m = "-1" and p = 0 and q = 45]
    by (simp add: fadd_def)
  have y9: "fmul 6 50 = 300"
    using double_exact[where x = "6 * 50" and m = "75" and p = 2 and q = 0]
    by (simp add: fmul_def)
  have y10: "fsub (42221246506599 / 2 ^ 46) 300 = - (2633550250849075 / 2 ^ 43)"
    using double_near[where x = "(42221246506599 / 2 ^ 46) - 300" and ulp = "2 ^ 0 / 2 ^ 44" and p = 0 and q = 44 and m = "-5267100501698150"]
    by (simp add: fsub_def)
  have y11: "fmul (- (2633550250849075 / 2 ^ 43)) (- (2633550250849075 / 2 ^ 43)) = 770004829203333 / 2 ^ 33"
    using double_near[where x = "(- (2633550250849075 / 2 ^ 43)) * (- (2633550250849075 / 2 ^ 43))" and ulp = "2 ^ 0 / 2 ^ 36" and p = 0 and q = 36 and m = "6160038633626664"]
    by (simp add: fmul_def)
  have y12: "fmul 4 (- (1 / 2 ^ 45)) = - (1 / 2 ^ 43)"
    using double_exact[where x = "4 * (- (1 / 2 ^ 45))" and m = "-1" and p = 0 and q = 43]
    by (simp add: fmul_def)
  have y13: "fmul (- (1 / 2 ^ 43)) 150 = - (75 / 2 ^ 42)"
    using double_exact[where x = "(- (1 / 2 ^ 43)) * 150" and m = "-75" and p = 0 and q = 42]
    by (simp add: fmul_def)
  have y14: "fsub (770004829203333 / 2 ^ 33) (- (75 / 2 ^ 42)) = 6160038633626665 / 2 ^ 36"
    using double_near[where x = "(770004829203333 / 2 ^ 33) - (- (75 / 2 ^ 42))" and ulp = "2 ^ 0 / 2 ^ 36" and p = 0 and q = 36 and m = "6160038633626665"]
    by (simp add: fsub_def)
  have y15: "fsqrt (6160038633626665 / 2 ^ 36) = 2633550250849075 / 2 ^ 43"
    using double_sqrt[where s = "6160038633626665 / 2 ^ 36" and ulp = "2 ^ 0 / 2 ^ 44" and p = 0 and q = 44 and m = "5267100501698150"]
    by (simp add: fsqrt_def power2_eq_square)
  have y16: "fadd (- (- (2633550250849075 / 2 ^ 43))) (2633550250849075 / 2 ^ 43) = 2633550250849075 / 2 ^ 42"
    using double_exact[where x = "(- (- (2633550250849075 / 2 ^ 43))) + (2633550250849075 / 2 ^ 43)" and m = "2633550250849075" and p = 0 and q = 42]
    by (simp add: fadd_def)
  have y17: "fmul 2 (- (1 / 2 ^ 45)) = - (1 / 2 ^ 44)"
    using double_exact[where x = "2 * (- (1 / 2 ^ 45))" and m = "-1" and p = 0 and q = 44]
    by (simp add: fmul_def)
  have y18: "fdiv (2633550250849075 / 2 ^ 42) (- (1 / 2 ^ 44)) = - 10534201003396300"
    using double_exact[where x = "(2633550250849075 / 2 ^ 42) / (- (1 / 2 ^ 44))" and m = "-2633550250849075" and p = 2 and q = 0]
    by (simp add: fdiv_def)
  have y19: "fsub (- (- (2633550250849075 / 2 ^ 43))) (2633550250849075 / 2 ^ 43) = 0"
    by (simp add: fsub_def double_0)
  have y20: "fdiv 0 (- (1 / 2 ^ 44)) = 0"
    by (simp add: fdiv_def double_0)
  show ?thesis
    unfolding double_literals solveQuadratic_def Let_def
      y1 y2 y3 y4 y5 y6 y7 y8 y9 y10 y11 y12 y13 y14 y15 y16 y17 y18 y19 y20
    by (simp add: bezier_at_0)
qed

text \<open>
  The spec's example, the segment \<open>(0,0), (0,50), (100,50), (100,0)\<close>: the computed
  range of \<open>y\<close> is \<open>[0, 37.5]\<close>.
\<close>

lemma bezier_example:
  "getCubicBezierCurveBound (0, 0) (0, 50) (100, 50) (100, 0) = (0, 0, 100, 75 / 2)"
  by (simp add: getCubicBezierCurveBound_def Let_def solveQuadratic_x solveQuadratic_example
      nonNull_def minWith_def maxWith_def)

lemma bezier_failing:
  "getCubicBezierCurveBound (0, 0) (0, 50) (100, double (501 / 10)) (100, double (3 / 10))
     = (0, 0, 100, double (3 / 10))"
proof -
  have "0 \<le> double (3 / 10)" unfolding double_literals by simp
  then show ?thesis
    by (simp add: getCubicBezierCurveBound_def Let_def solveQuadratic_x solveQuadratic_failing
        nonNull_def minWith_def maxWith_def)
qed

text \<open>
  In exact arithmetic the quadratic of that axis has a root between \<open>1/2\<close> and \<open>51/100\<close>,
  where the Bernstein cubic is above 36.
\<close>

lemma failing_root:
  "\<exists>v. spec_candidate 0 50 (double (501 / 10)) (double (3 / 10)) v \<and> 36 < v"
proof -
  let ?q = "spec_quadratic 0 50 (double (501 / 10)) (double (3 / 10))"
  have c: "continuous_on {1 / 2 .. 51 / 100} ?q"
    unfolding spec_quadratic_def by (intro continuous_intros)
  have "?q (51 / 100) \<le> 0" "0 \<le> ?q (1 / 2)"
    unfolding spec_quadratic_def double_literals by (simp_all add: power2_eq_square)
  from IVT2'[OF this _ c] obtain t where t: "1 / 2 \<le> t" "t \<le> 51 / 100" "?q t = 0"
    by auto
  define D where "D = double (501 / 10)"
  define E where "E = double (3 / 10)"
  define A where "A = (1 - t)\<^sup>2 * t"
  define B where "B = (1 - t) * t\<^sup>2"
  define C where "C = t ^ 3 * E"
  define G where "G = D * B"
  have d: "50 \<le> D" "0 \<le> E"
    unfolding D_def E_def double_literals by simp_all
  from t have u: "49 / 100 \<le> 1 - t" by simp
  have "(49 / 100)\<^sup>2 \<le> (1 - t)\<^sup>2" using u by (intro power_mono) simp_all
  then have "(49 / 100)\<^sup>2 * (1 / 2) \<le> (1 - t)\<^sup>2 * t"
    using t by (intro mult_mono) simp_all
  then have a: "2401 / 20000 \<le> A" by (simp add: A_def power2_eq_square)
  have "(1 / 2)\<^sup>2 \<le> t\<^sup>2" using t by (intro power_mono) simp_all
  then have "(49 / 100) * (1 / 2)\<^sup>2 \<le> (1 - t) * t\<^sup>2"
    using u by (intro mult_mono) simp_all
  then have b: "49 / 400 \<le> B" by (simp add: B_def power2_eq_square)
  then have b0: "0 \<le> B" by simp
  have "50 * B \<le> D * B" using d b0 by (intro mult_right_mono) simp_all
  then have g: "50 * B \<le> G" by (simp add: G_def)
  have c0: "0 \<le> C" using t d by (simp add: C_def)
  have "spec_bernstein t 0 50 D E = 150 * A + 3 * G + C"
    by (simp add: spec_bernstein_def A_def B_def C_def G_def algebra_simps)
  with a b g c0 have "36 < spec_bernstein t 0 50 D E" by linarith
  then have "36 < spec_bernstein t 0 50 (double (501 / 10)) (double (3 / 10))"
    by (simp add: D_def E_def)
  moreover from t have "spec_candidate 0 50 (double (501 / 10)) (double (3 / 10))
      (spec_bernstein t 0 50 (double (501 / 10)) (double (3 / 10)))"
    unfolding spec_candidate_def by (intro disjI2 exI[of _ t]) simp
  ultimately show ?thesis by blast
qed

text \<open>
  Claim C2: the bound takes, per axis, the least and the greatest of both endpoints and of
  the Bernstein cubic at the roots of the quadratic in \<open>[0, 1]\<close>. The code breaks the claim
  for the segment \<open>(0,0), (0,50), (100,50.1), (100,0.3)\<close>, the spec's example with two
  coordinates moved: the computed range of \<open>y\<close> is \<open>[0, 0.3]\<close>, the endpoints only, while
  the quadratic has a root in \<open>[0, 1]\<close> where the Bernstein cubic is above 36. The
  coefficient \<open>a\<close> of these control values is \<open>- 231 / 2 ^ 54\<close>; the source computes
  \<open>- 1 / 2 ^ 45\<close> for it, and the quadratic formula then loses the root to cancellation.
\<close>

theorem cubic_bezier_bound:
  "getCubicBezierCurveBound (0, 0) (0, 50) (100, double (501 / 10)) (100, double (3 / 10))
     = (0, 0, 100, double (3 / 10))
   \<and> double (3 / 10) < 1
   \<and> (\<exists>v. spec_candidate 0 50 (double (501 / 10)) (double (3 / 10)) v \<and> 36 < v)"
proof -
  have "double (3 / 10) < 1" unfolding double_literals by simp
  with bezier_failing failing_root show ?thesis by blast
qed

subsection \<open>Bounds of unrotated shapes\<close>

lemma rotate_xy_zero: "rotate_xy x1 y1 x2 y2 0 = (x1, y1)"
  by (simp add: rotate_xy_def)









subsection \<open>The bounds cache\<close>

lemma getBounds_miss:
  assumes "\<not> (spec_cacheHit h boundsCache r \<and> el_version (h r) \<noteq> 0)"
  shows "getBounds ext h boundsCache r m = recomputed ext h boundsCache r m"
  using assms
  by (auto simp: getBounds_def Let_def spec_cacheHit_def recomputed_def split: option.splits)

text \<open>
  Claim C1. Every element of a scene has a version above 0 (\<^verbatim>\<open>restore\<close> gives an element
  without a version the version 1). For such an element, \<open>getBounds\<close> returns the cached
  bounds, and leaves the cache as it is, exactly when the cache holds an entry whose
  stored version equals the current version of the element and the element is not a text
  label bound to a container. In every other case it recomputes the bounds and stores
  them under the current version. So a second call on an unmutated element that is not a
  label is a cache hit that returns the value of the first call, and a call after the
  version was incremented recomputes.
\<close>

theorem bounds_cache_freshness:
  assumes "0 < el_version (h r)"
  shows "(spec_cacheHit h boundsCache r \<longrightarrow>
            (\<exists>cached. boundsCache r = Some cached
               \<and> getBounds ext h boundsCache r m = (ce_bounds cached, boundsCache)))
         \<and> (\<not> spec_cacheHit h boundsCache r \<longrightarrow>
            getBounds ext h boundsCache r m = recomputed ext h boundsCache r m)
         \<and> (\<not> isBoundToContainer (h r) \<longrightarrow>
            spec_cacheHit h (snd (getBounds ext h boundsCache r m)) r
            \<and> getBounds ext h (snd (getBounds ext h boundsCache r m)) r m
                = getBounds ext h boundsCache r m)
         \<and> (h' = h(r := (h r)\<lparr>el_version := el_version (h r) + 1\<rparr>) \<longrightarrow>
            \<not> spec_cacheHit h' (snd (getBounds ext h boundsCache r m)) r
            \<and> getBounds ext h' (snd (getBounds ext h boundsCache r m)) r m
                = recomputed ext h' (snd (getBounds ext h boundsCache r m)) r m)"
proof (intro conjI impI)
  assume "spec_cacheHit h boundsCache r"
  with assms show "\<exists>cached. boundsCache r = Some cached
      \<and> getBounds ext h boundsCache r m = (ce_bounds cached, boundsCache)"
    by (auto simp: getBounds_def Let_def spec_cacheHit_def split: option.splits)
next
  assume "\<not> spec_cacheHit h boundsCache r"
  then show "getBounds ext h boundsCache r m = recomputed ext h boundsCache r m"
    by (simp add: getBounds_miss)
next
  assume a: "\<not> isBoundToContainer (h r)"
  with assms show "spec_cacheHit h (snd (getBounds ext h boundsCache r m)) r"
    by (auto simp: getBounds_def Let_def spec_cacheHit_def split: option.splits)
  from a assms show "getBounds ext h (snd (getBounds ext h boundsCache r m)) r m
      = getBounds ext h boundsCache r m"
    by (auto simp: getBounds_def Let_def split: option.splits)
next
  assume h': "h' = h(r := (h r)\<lparr>el_version := el_version (h r) + 1\<rparr>)"
  show n: "\<not> spec_cacheHit h' (snd (getBounds ext h boundsCache r m)) r"
    unfolding h' by (auto simp: getBounds_def Let_def spec_cacheHit_def split: option.splits)
  then show "getBounds ext h' (snd (getBounds ext h boundsCache r m)) r m
        = recomputed ext h' (snd (getBounds ext h boundsCache r m)) r m"
    by (simp add: getBounds_miss)
qed

lemma example_rectangle_bounds:
  "calculateBounds exampleBoundsExt (singleton (exampleElement ''rectangle'' 0 0 10 10))
     (exampleElement ''rectangle'' 0 0 10 10) Map.empty = (Fin 0, Fin 0, Fin 10, Fin 10)"
  by (simp add: calculateBounds_def getElementAbsoluteCoords_def exampleElement_def
      exampleBoundsExt_def isFreeDrawElement_def isLinearElement_def isTextElement_def
      rotate_xy_zero min4_def max4_def Let_def)

theorem bounds_cache_freshness_witness:
  "getBounds exampleBoundsExt (singleton (exampleElement ''rectangle'' 0 0 10 10))
     (snd (getBounds exampleBoundsExt (singleton (exampleElement ''rectangle'' 0 0 10 10))
             Map.empty 0 Map.empty)) 0 Map.empty
   = getBounds exampleBoundsExt (singleton (exampleElement ''rectangle'' 0 0 10 10))
       Map.empty 0 Map.empty
   \<and> fst (getBounds exampleBoundsExt (singleton (exampleElement ''rectangle'' 0 0 10 10))
            Map.empty 0 Map.empty) = (Fin 0, Fin 0, Fin 10, Fin 10)"
proof -
  have v: "0 < el_version (singleton (exampleElement ''rectangle'' 0 0 10 10) 0)"
    by (simp add: singleton_def exampleElement_def)
  have l: "\<not> isBoundToContainer (singleton (exampleElement ''rectangle'' 0 0 10 10) 0)"
    by (simp add: singleton_def exampleElement_def isBoundToContainer_def)
  have e: "singleton (exampleElement ''rectangle'' 0 0 10 10) 0 = exampleElement ''rectangle'' 0 0 10 10"
    by (simp add: singleton_def)
  have "fst (getBounds exampleBoundsExt (singleton (exampleElement ''rectangle'' 0 0 10 10))
            Map.empty 0 Map.empty) = (Fin 0, Fin 0, Fin 10, Fin 10)"
    by (simp add: getBounds_def Let_def e example_rectangle_bounds)
  with l bounds_cache_freshness [where boundsCache = Map.empty and r = 0
      and h = "singleton (exampleElement ''rectangle'' 0 0 10 10)"
      and ext = exampleBoundsExt and m = Map.empty, OF v]
  show ?thesis by blast
qed

subsection \<open>Common bounds\<close>

lemma PInf_top: "(a::num) \<le> PInf"
  by (cases a) simp_all

lemma MInf_bot: "MInf \<le> (a::num)"
  by (cases a) simp_all

lemma fst_getBounds_cong:
  "c1 r = c2 r \<Longrightarrow> fst (getBounds ext h c1 r m) = fst (getBounds ext h c2 r m)"
  by (simp add: getBounds_def Let_def split: option.splits)

lemma snd_getBounds_other:
  "r \<noteq> r0 \<Longrightarrow> snd (getBounds ext h c r0 m) r = c r"
  by (simp add: getBounds_def Let_def split: option.splits)

lemma getBounds_again:
  "fst (getBounds ext h (snd (getBounds ext h c r m)) r m) = fst (getBounds ext h c r m)"
  by (auto simp: getBounds_def Let_def split: option.splits)

text \<open>A call for one element does not change what a later call returns for any element.\<close>

lemma getBounds_stable:
  "fst (getBounds ext h (snd (getBounds ext h c r0 m)) r m) = fst (getBounds ext h c r m)"
proof (cases "r = r0")
  case True
  then show ?thesis by (simp add: getBounds_again)
next
  case False
  then show ?thesis by (rule fst_getBounds_cong[OF snd_getBounds_other])
qed

lemma fold_commonBoundsStep:
  assumes "\<forall>r. fst (getBounds ext h c' r m) = f r"
  shows "fst (fold (commonBoundsStep ext h m) es (acc, c')) = fold (pureStep f) es acc"
  using assms
proof (induction es arbitrary: acc c')
  case Nil
  then show ?case by simp
next
  case (Cons r0 es)
  obtain a b c d where acc: "acc = (a, b, c, d)"
    by (cases acc) auto
  obtain bb c'' where gb: "getBounds ext h c' r0 m = (bb, c'')"
    by (cases "getBounds ext h c' r0 m")
  obtain x1 y1 x2 y2 where bb: "bb = (x1, y1, x2, y2)"
    by (cases bb) auto
  from Cons.prems gb have fr0: "f r0 = bb"
    by (metis fst_conv)
  have st: "\<forall>r. fst (getBounds ext h c'' r m) = f r"
    using Cons.prems getBounds_stable[of ext h c' r0 m] gb by (metis snd_conv)
  have step: "commonBoundsStep ext h m r0 (acc, c') = (pureStep f r0 acc, c'')"
    by (simp add: commonBoundsStep_def getElementBounds_def gb acc bb pureStep_def fr0
        minX_of_def minY_of_def maxX_of_def maxY_of_def)
  show ?case using Cons.IH[OF st] by (simp add: step)
qed

lemma fold_pureStep:
  "fold (pureStep f) es (a, b, c, d) =
     (fold min (map (\<lambda>r. minX_of (f r)) es) a, fold min (map (\<lambda>r. minY_of (f r)) es) b,
      fold max (map (\<lambda>r. maxX_of (f r)) es) c, fold max (map (\<lambda>r. maxY_of (f r)) es) d)"
  by (induction es arbitrary: a b c d) (simp_all add: pureStep_def min.commute max.commute)

lemma fold_min_PInf: "xs \<noteq> [] \<Longrightarrow> fold min xs PInf = Min (set xs)"
proof -
  assume "xs \<noteq> []"
  then obtain x ys where xs: "xs = x # ys"
    by (cases xs) auto
  have "fold min xs PInf = fold min ys x"
    by (simp add: xs min_absorb1 PInf_top)
  also have "\<dots> = Min (set xs)"
    unfolding xs by (rule Min.set_eq_fold[symmetric])
  finally show ?thesis .
qed

lemma fold_max_MInf: "xs \<noteq> [] \<Longrightarrow> fold max xs MInf = Max (set xs)"
proof -
  assume "xs \<noteq> []"
  then obtain x ys where xs: "xs = x # ys"
    by (cases xs) auto
  have "fold max xs MInf = fold max ys x"
    by (simp add: xs max_absorb1 MInf_bot)
  also have "\<dots> = Max (set xs)"
    unfolding xs by (rule Max.set_eq_fold[symmetric])
  finally show ?thesis .
qed

lemma commonLoop:
  assumes "es \<noteq> []"
  shows "fst (fold (commonBoundsStep ext h m) es ((PInf, PInf, MInf, MInf), c)) =
     spec_unionBounds (map (\<lambda>r. fst (getElementBounds ext h c r m)) es)"
proof -
  define f where "f = (\<lambda>r. fst (getBounds ext h c r m))"
  have "fst (fold (commonBoundsStep ext h m) es ((PInf, PInf, MInf, MInf), c))
      = fold (pureStep f) es (PInf, PInf, MInf, MInf)"
    by (rule fold_commonBoundsStep) (simp add: f_def)
  also have "\<dots> = spec_unionBounds (map f es)"
    using assms
    by (simp add: fold_pureStep fold_min_PInf fold_max_MInf spec_unionBounds_def comp_def)
  finally show ?thesis by (simp add: f_def getElementBounds_def)
qed

lemma spec_unionBounds_set:
  "set bs = set bs' \<Longrightarrow> spec_unionBounds bs = spec_unionBounds bs'"
  by (simp add: spec_unionBounds_def)

lemma arrayToMap_fold:
  "fold (\<lambda>r m. m(k r \<mapsto> r)) es m0 = m0 ++ map_of (rev (map (\<lambda>r. (k r, r)) es))"
proof (induction es arbitrary: m0)
  case Nil
  show ?case by simp
next
  case (Cons r es)
  have "fold (\<lambda>r m. m(k r \<mapsto> r)) (r # es) m0 = fold (\<lambda>r m. m(k r \<mapsto> r)) es (m0(k r \<mapsto> r))"
    by simp
  also have "\<dots> = m0(k r \<mapsto> r) ++ map_of (rev (map (\<lambda>r. (k r, r)) es))"
    by (rule Cons.IH)
  also have "m0(k r \<mapsto> r) = m0 ++ map_of [(k r, r)]"
    by simp
  also have "(m0 ++ map_of [(k r, r)]) ++ map_of (rev (map (\<lambda>r. (k r, r)) es))
      = m0 ++ map_of (rev (map (\<lambda>r. (k r, r)) (r # es)))"
    by (simp only: rev.simps list.map map_of_append map_add_assoc)
  finally show ?case .
qed

text \<open>With pairwise different ids, the lookup does not depend on the order of the list.\<close>

lemma arrayToMap_perm:
  assumes "mset es' = mset es" "distinct (map (\<lambda>r. el_id (h r)) es)"
  shows "arrayToMap h es' = arrayToMap h es"
proof -
  define g where "g = (\<lambda>r. (el_id (h r), r))"
  have fstg: "fst \<circ> g = (\<lambda>r. el_id (h r))"
    by (simp add: g_def comp_def)
  from assms(1) have "mset (map (\<lambda>r. el_id (h r)) es') = mset (map (\<lambda>r. el_id (h r)) es)"
    by simp
  with assms(2) have d': "distinct (map (\<lambda>r. el_id (h r)) es')"
    by (metis mset_eq_imp_distinct_iff)
  have s: "set es' = set es"
    using assms(1) by (rule mset_eq_setD)
  have "map_of (rev (map g es')) = map_of (rev (map g es))"
    by (subst map_of_inject_set) (simp_all add: rev_map[symmetric] fstg assms(2) d' s)
  then show ?thesis
    by (simp add: arrayToMap_def arrayToMap_fold g_def)
qed

lemma getCommonBounds_nonempty:
  "es \<noteq> [] \<Longrightarrow> getCommonBounds ext h c es =
     fold (commonBoundsStep ext h (arrayToMap h es)) es ((PInf, PInf, MInf, MInf), c)"
  by (simp add: getCommonBounds_def Let_def)

lemma getCommonBounds_union:
  assumes "es \<noteq> []"
  shows "fst (getCommonBounds ext h c es) =
        spec_unionBounds (map (\<lambda>r. fst (getElementBounds ext h c r (arrayToMap h es))) es)"
  unfolding getCommonBounds_nonempty[OF assms] using assms by (rule commonLoop)

text \<open>
  Claim C7. For a non-empty list of elements, \<open>getCommonBounds\<close> returns the union
  rectangle of the bounds that \<open>getElementBounds\<close> gives for the single elements: the
  least \<open>minX\<close>, the least \<open>minY\<close>, the greatest \<open>maxX\<close> and the greatest \<open>maxY\<close>. The
  result is the same for every permutation of a list of elements with pairwise different
  ids.
\<close>

theorem common_bounds_union:
  "(elements \<noteq> [] \<longrightarrow>
      fst (getCommonBounds ext h boundsCache elements) =
        spec_unionBounds
          (map (\<lambda>r. fst (getElementBounds ext h boundsCache r (arrayToMap h elements))) elements))
   \<and> (mset elements' = mset elements \<and> distinct (map (\<lambda>r. el_id (h r)) elements) \<longrightarrow>
        fst (getCommonBounds ext h boundsCache elements')
          = fst (getCommonBounds ext h boundsCache elements))"
proof (intro conjI impI)
  assume ne: "elements \<noteq> []"
  then show "fst (getCommonBounds ext h boundsCache elements) =
        spec_unionBounds
          (map (\<lambda>r. fst (getElementBounds ext h boundsCache r (arrayToMap h elements))) elements)"
    by (rule getCommonBounds_union)
next
  assume a: "mset elements' = mset elements \<and> distinct (map (\<lambda>r. el_id (h r)) elements)"
  then have ms: "mset elements' = mset elements"
    and d: "distinct (map (\<lambda>r. el_id (h r)) elements)" by blast+
  from ms d have m: "arrayToMap h elements' = arrayToMap h elements"
    by (rule arrayToMap_perm)
  from ms have s: "set elements' = set elements"
    by (rule mset_eq_setD)
  show "fst (getCommonBounds ext h boundsCache elements')
          = fst (getCommonBounds ext h boundsCache elements)"
  proof (cases "elements = []")
    case True
    with ms have "elements' = []" by simp
    with True show ?thesis by simp
  next
    case False
    with s have ne': "elements' \<noteq> []" by auto
    have "set (map (\<lambda>r. fst (getElementBounds ext h boundsCache r (arrayToMap h elements))) elements')
        = set (map (\<lambda>r. fst (getElementBounds ext h boundsCache r (arrayToMap h elements))) elements)"
      by (simp only: set_map s)
    then have "spec_unionBounds
          (map (\<lambda>r. fst (getElementBounds ext h boundsCache r (arrayToMap h elements))) elements')
        = spec_unionBounds
          (map (\<lambda>r. fst (getElementBounds ext h boundsCache r (arrayToMap h elements))) elements)"
      by (rule spec_unionBounds_set)
    then show ?thesis
      unfolding getCommonBounds_union[OF False] getCommonBounds_union[OF ne'] m .
  qed
qed

lemma exampleScene_bounds:
  "fst (getBounds exampleBoundsExt exampleScene Map.empty 0 m) = (Fin 0, Fin 0, Fin 10, Fin 10)"
  "fst (getBounds exampleBoundsExt exampleScene Map.empty (Suc 0) m) = (Fin 5, Fin 5, Fin 25, Fin 25)"
  by (simp_all add: getBounds_def Let_def exampleScene_def
      calculateBounds_def getElementAbsoluteCoords_def exampleElement_def
      exampleBoundsExt_def isFreeDrawElement_def isLinearElement_def isTextElement_def
      rotate_xy_zero min4_def max4_def)

theorem common_bounds_union_witness:
  "fst (getCommonBounds exampleBoundsExt exampleScene Map.empty [Suc 0, 0])
     = fst (getCommonBounds exampleBoundsExt exampleScene Map.empty [0, Suc 0])
   \<and> fst (getCommonBounds exampleBoundsExt exampleScene Map.empty [0, Suc 0])
     = (Fin 0, Fin 0, Fin 25, Fin 25)"
proof -
  have d: "mset [Suc 0, 0] = mset [0, Suc 0]
      \<and> distinct (map (\<lambda>r. el_id (exampleScene r)) [0, Suc 0])"
    by (simp add: exampleScene_def exampleElement_def)
  have u: "spec_unionBounds
      (map (\<lambda>r. fst (getElementBounds exampleBoundsExt exampleScene Map.empty r
                       (arrayToMap exampleScene [0, Suc 0]))) [0, Suc 0])
      = (Fin 0, Fin 0, Fin 25, Fin 25)"
    by (simp add: spec_unionBounds_def getElementBounds_def exampleScene_bounds
        minX_of_def minY_of_def maxX_of_def maxY_of_def)
  from d u common_bounds_union [of "[0, Suc 0]" exampleBoundsExt exampleScene Map.empty "[Suc 0, 0]"]
  show ?thesis by simp
qed

subsection \<open>Hit-test priority of the rotation handle\<close>

text \<open>
  Claim C3. For a selected element whose rotation transform handle exists and contains
  the pointer, \<open>resizeTest\<close> returns \<^verbatim>\<open>rotation\<close>, whatever the corner handles, the crop
  handles and the side tests would answer: the rotation handle is tested first.
\<close>

theorem rotation_handle_first:
  assumes "selectedElementIds appState (el_id element)"
    and "rotationOf (getTransformHandles rext h element zoom elementsMap pointerType
                       (getOmitSidesForDevice rext device)) = Some rotationTransformHandle"
    and "isInsideTransformHandle rotationTransformHandle x y"
  shows "resizeTest ext rext h element elementsMap appState x y zoom pointerType device
           = Some ''rotation''"
  using assms by (simp add: resizeTest_def Let_def)

text \<open>
  In the example the pointer \<open>(5, 5)\<close> is inside the rotation handle, inside the \<^verbatim>\<open>n\<close>
  handle and on the \<^verbatim>\<open>n\<close> side, and the answer is \<^verbatim>\<open>rotation\<close>.
\<close>

lemma example_handles_overlap:
  "keysInside (restOf (getTransformHandles exampleResizeExt h element zoom elementsMap () ())) 5 5
     = [''n'']"
  by (simp add: exampleResizeExt_def keysInside_def restOf_def isInsideTransformHandle_def)

theorem rotation_handle_first_witness:
  "resizeTest exampleBoundsExt exampleResizeExt
     (singleton (exampleElement ''rectangle'' 0 0 10 10)) (exampleElement ''rectangle'' 0 0 10 10)
     Map.empty exampleAppState 5 5 1 () () = Some ''rotation''
   \<and> keysInside (restOf (getTransformHandles exampleResizeExt
        (singleton (exampleElement ''rectangle'' 0 0 10 10)) (exampleElement ''rectangle'' 0 0 10 10)
        1 Map.empty () ())) 5 5 = [''n'']
   \<and> firstSideHit exampleResizeExt
        (getSelectionBorders exampleResizeExt (- 16, - 16) (26, 26) (5, 5) 0) 5 5 16 = Some ''n''"
proof -
  have "resizeTest exampleBoundsExt exampleResizeExt
     (singleton (exampleElement ''rectangle'' 0 0 10 10)) (exampleElement ''rectangle'' 0 0 10 10)
     Map.empty exampleAppState 5 5 1 () () = Some ''rotation''"
    by (rule rotation_handle_first [where rotationTransformHandle = "(0, 0, 10, 10)"])
      (simp_all add: exampleAppState_def exampleResizeExt_def rotationOf_def
        isInsideTransformHandle_def)
  moreover have "firstSideHit exampleResizeExt
        (getSelectionBorders exampleResizeExt (- 16, - 16) (26, 26) (5, 5) 0) 5 5 16 = Some ''n''"
    by (simp add: firstSideHit_def getSelectionBorders_def exampleResizeExt_def Let_def)
  ultimately show ?thesis by (simp add: example_handles_overlap)
qed

subsection \<open>Raster cache regeneration\<close>

lemma generateElementWithCanvas_None:
  "elementWithCanvasCache r = None \<Longrightarrow>
   generateElementWithCanvas ext rx h elementWithCanvasCache r elementsMap appState =
        (case generateElementCanvas ext rx h r elementsMap (zoom_value appState) appState of
           Inl err \<Rightarrow> Inl err
         | Inr elementWithCanvas \<Rightarrow>
             Inr (elementWithCanvas, elementWithCanvasCache(r \<mapsto> elementWithCanvas)))"
  unfolding generateElementWithCanvas_def Let_def by simp

lemma generateElementWithCanvas_Some:
  "elementWithCanvasCache r = Some cached \<Longrightarrow>
   generateElementWithCanvas ext rx h elementWithCanvasCache r elementsMap appState =
     (if akhonRenderKoraUchit (h r)
         \<or> (ewc_zoomValue cached \<noteq> zoom_value appState \<and> \<not> shouldCacheIgnoreZoom appState)
         \<or> ewc_theme cached \<noteq> theme appState
         \<or> ewc_boundTextElementVersion cached \<noteq> boundTextElementVersionOf ext h (h r) elementsMap
         \<or> ewc_containingFrameOpacity cached \<noteq> containingFrameOpacityOf rx h (h r) elementsMap
      then (case generateElementCanvas ext rx h r elementsMap (zoom_value appState) appState of
           Inl err \<Rightarrow> Inl err
         | Inr elementWithCanvas \<Rightarrow>
             Inr (elementWithCanvas, elementWithCanvasCache(r \<mapsto> elementWithCanvas)))
      else Inr (cached, elementWithCanvasCache))"
  unfolding generateElementWithCanvas_def Let_def by simp

text \<open>
  The entry generated for a rectangle of 10 by 10 at zoom 1 in the light theme, in a scene
  without bound text: the entry \<open>exampleEntry\<close> with the containing-frame opacity that
  \<open>containingFrameOpacityOf\<close> computes.
\<close>

lemma rectangle_coords:
  assumes "el_type (h r) = ''rectangle''" and "el_x (h r) = 0" and "el_y (h r) = 0"
    and "el_width (h r) = 10" and "el_height (h r) = 10"
  shows "getElementAbsoluteCoords exampleBoundsExt h (h r) elementsMap False
     = (0, 0, 10, 10, 5, 5)"
  using assms
  by (simp add: getElementAbsoluteCoords_def isFreeDrawElement_def isLinearElement_def
      isTextElement_def)

lemma rectangle_size:
  assumes "el_type (h r) = ''rectangle''" and "el_x (h r) = 0" and "el_y (h r) = 0"
    and "el_width (h r) = 10" and "el_height (h r) = 10" and "devicePixelRatio rx = 1"
  shows "cappedElementCanvasSize exampleBoundsExt rx h (h r) elementsMap 1 = (50, 50, 1)"
  unfolding cappedElementCanvasSize_def rectangle_coords[where h = h and r = r, OF assms(1-5)] Let_def
  using assms by (simp add: getCanvasPadding_def isFreeDrawElement_def isLinearElement_def)

lemma rectangle_canvas:
  assumes "el_type (h r) = ''rectangle''" and "el_x (h r) = 0" and "el_y (h r) = 0"
    and "el_width (h r) = 10" and "el_height (h r) = 10" and "devicePixelRatio rx = 1"
    and "\<not> el_isPathElement (h r)" and "theme appState = ''light''"
  shows "generateElementCanvas exampleBoundsExt rx h r elementsMap 1 appState =
     Inr ((exampleEntry r)
            \<lparr>ewc_containingFrameOpacity := containingFrameOpacityOf rx h (h r) elementsMap\<rparr>)"
  unfolding generateElementCanvas_def Let_def rectangle_size[where h = h and r = r, OF assms(1-6)]
  using assms
  by (simp add: drawElementOnCanvas_def isFreeDrawElement_def isLinearElement_def
      boundTextElementVersionOf_def exampleBoundsExt_def exampleEntry_def)

lemma exampleFramed_fields:
  "el_type (exampleFramed opacity 0) = ''rectangle''"
  "el_x (exampleFramed opacity 0) = 0" "el_y (exampleFramed opacity 0) = 0"
  "el_width (exampleFramed opacity 0) = 10" "el_height (exampleFramed opacity 0) = 10"
  "devicePixelRatio exampleFrameExt = 1"
  "\<not> el_isPathElement (exampleFramed opacity 0)" "theme exampleAppState = ''light''"
  "el_akhonRenderKoraUchit (exampleFramed opacity 0) = None"
  "zoom_value exampleAppState = 1"
  by (simp_all add: exampleFramed_def exampleElement_def exampleFrameExt_def exampleAppState_def)

lemma exampleFramed_frame:
  "getContainingFrame exampleFrameExt (exampleFramed opacity) (exampleFramed opacity 0) elementsMap
     = Some (Suc 0)"
  "el_opacity (exampleFramed opacity (Suc 0)) = opacity"
  by (simp_all add: exampleFramed_def exampleElement_def exampleFrameExt_def)

text \<open>
  The value that the code compares with the cached one is the same for a frame of
  opacity 100 and for a frame of opacity 0.
\<close>

lemma exampleFramed_opacity:
  "containingFrameOpacityOf exampleFrameExt (exampleFramed 100) (exampleFramed 100 0) elementsMap
     = 100"
  "containingFrameOpacityOf exampleFrameExt (exampleFramed 0) (exampleFramed 0 0) elementsMap
     = 100"
  by (simp_all add: containingFrameOpacityOf_def exampleFramed_frame)

lemma exampleFramed_canvas:
  "generateElementCanvas exampleBoundsExt exampleFrameExt (exampleFramed 100) 0 elementsMap 1
     exampleAppState = Inr (exampleEntry 0)"
  unfolding rectangle_canvas[where h = "exampleFramed 100" and r = 0 and rx = exampleFrameExt,
      OF exampleFramed_fields(1-8)] exampleFramed_opacity
  by (simp add: exampleEntry_def)

text \<open>
  Claim C6: the raster cache regenerates the canvas of an element when the cached
  containing-frame opacity differs from the current one. The code breaks the claim when
  the opacity of the containing frame goes from 100 to 0. The entry of a rectangle is
  generated while its frame has opacity 100. The opacity of the frame is then set to 0:
  the containing-frame opacity of the rectangle has changed, but
  \<^verbatim>\<open>getContainingFrame(...)?.opacity || 100\<close> reads the opacity 0 as missing and yields
  100, the cached value, so \<open>generateElementWithCanvas\<close> returns the entry from the cache
  and leaves the cache as it is.
\<close>

theorem raster_cache_regeneration:
  "generateElementWithCanvas exampleBoundsExt exampleFrameExt (exampleFramed 100) Map.empty 0
       Map.empty exampleAppState = Inr (exampleEntry 0, [0 \<mapsto> exampleEntry 0])
   \<and> spec_containingFrameOpacity exampleFrameExt (exampleFramed 100) 0 Map.empty = Some 100
   \<and> spec_containingFrameOpacity exampleFrameExt (exampleFramed 0) 0 Map.empty = Some 0
   \<and> generateElementWithCanvas exampleBoundsExt exampleFrameExt (exampleFramed 0)
       [0 \<mapsto> exampleEntry 0] 0 Map.empty exampleAppState
       = Inr (exampleEntry 0, [0 \<mapsto> exampleEntry 0])"
proof -
  have first: "generateElementWithCanvas exampleBoundsExt exampleFrameExt (exampleFramed 100)
      Map.empty 0 Map.empty exampleAppState = Inr (exampleEntry 0, [0 \<mapsto> exampleEntry 0])"
    by (simp add: generateElementWithCanvas_None exampleFramed_fields exampleFramed_canvas)
  have spec: "spec_containingFrameOpacity exampleFrameExt (exampleFramed 100) 0 Map.empty = Some 100"
    "spec_containingFrameOpacity exampleFrameExt (exampleFramed 0) 0 Map.empty = Some 0"
    by (simp_all add: spec_containingFrameOpacity_def exampleFramed_frame)
  have c: "[0 \<mapsto> exampleEntry 0] (0::nat) = Some (exampleEntry 0)" by simp
  have second: "generateElementWithCanvas exampleBoundsExt exampleFrameExt (exampleFramed 0)
       [0 \<mapsto> exampleEntry 0] 0 Map.empty exampleAppState
       = Inr (exampleEntry 0, [0 \<mapsto> exampleEntry 0])"
    unfolding generateElementWithCanvas_Some[where elementWithCanvasCache = "[0 \<mapsto> exampleEntry 0]"
        and r = 0, OF c] exampleFramed_opacity
    by (simp add: akhonRenderKoraUchit_def exampleFramed_fields exampleEntry_def
        boundTextElementVersionOf_def exampleBoundsExt_def)
  from first spec second show ?thesis by simp
qed

text \<open>
  The entry that the second call returns holds the containing-frame opacity 100, while the
  frame of the rectangle has opacity 0.
\<close>

theorem raster_cache_regeneration_witness:
  "map_sum id (\<lambda>(entry, cache). ewc_containingFrameOpacity entry)
     (generateElementWithCanvas exampleBoundsExt exampleFrameExt (exampleFramed 0)
        [0 \<mapsto> exampleEntry 0] 0 Map.empty exampleAppState) = Inr 100
   \<and> spec_containingFrameOpacity exampleFrameExt (exampleFramed 0) 0 Map.empty = Some 0"
  using raster_cache_regeneration by (simp add: exampleEntry_def)

subsection \<open>The draw dispatch\<close>

lemma drawable_cases:
  "drawable_on_canvas ty \<longleftrightarrow>
     ty = ''rectangle'' \<or> ty = ''iframe'' \<or> ty = ''embeddable'' \<or> ty = ''diamond''
     \<or> ty = ''ellipse'' \<or> ty = ''arrow'' \<or> ty = ''line'' \<or> ty = ''freedraw''
     \<or> ty = ''image'' \<or> ty = ''text''"
  unfolding drawable_on_canvas_def by simp

lemma recognized_cases:
  "spec_recognized ty \<longleftrightarrow> drawable_on_canvas ty \<or> ty = ''frame'' \<or> ty = ''magicframe''"
  unfolding spec_recognized_def drawable_on_canvas_def by auto

lemma frames_not_drawable:
  "\<not> drawable_on_canvas ''frame''" "\<not> drawable_on_canvas ''magicframe''"
  unfolding drawable_on_canvas_def by simp_all

lemma drawElementOnCanvas_ok:
  "drawable_on_canvas (el_type element) \<Longrightarrow> \<exists>content. drawElementOnCanvas rx r element = Inr content"
  unfolding drawable_cases drawElementOnCanvas_def isTextElement_def by auto

lemma drawElementOnCanvas_raises:
  "\<not> drawable_on_canvas (el_type element) \<Longrightarrow>
     drawElementOnCanvas rx r element = Inl (Unimplemented_type (el_type element))"
  unfolding drawable_cases drawElementOnCanvas_def isTextElement_def by simp

lemma generateElementCanvas_ok:
  assumes "drawable_on_canvas (el_type (h r))"
  shows "\<exists>entry. generateElementCanvas ext rx h r elementsMap zoom appState = Inr entry"
proof -
  from drawElementOnCanvas_ok[of "h r" rx r, OF assms] obtain content
    where "drawElementOnCanvas rx r (h r) = Inr content" by blast
  then show ?thesis
    by (simp add: generateElementCanvas_def Let_def split: prod.splits)
qed

lemma generateElementWithCanvas_ok:
  assumes "drawable_on_canvas (el_type (h r))"
  shows "\<exists>res. generateElementWithCanvas ext rx h cache r elementsMap appState = Inr res"
proof -
  from generateElementCanvas_ok[of h r ext rx elementsMap "zoom_value appState" appState, OF assms]
  obtain entry
    where "generateElementCanvas ext rx h r elementsMap (zoom_value appState) appState = Inr entry"
    by blast
  then show ?thesis
    by (simp add: generateElementWithCanvas_def Let_def split: option.splits)
qed

lemma unconditionalRenderElement_frame:
  assumes "el_type (h r) = ''magicframe'' \<or> el_type (h r) = ''frame''"
  shows "\<exists>st'. unconditionalRenderElement ext rx h r elementsMap appState st = Inr st'"
  using assms by (cases st) (simp add: unconditionalRenderElement_def Let_def)

lemma unconditionalRenderElement_drawable:
  assumes d: "drawable_on_canvas (el_type (h r))"
  shows "\<exists>st'. unconditionalRenderElement ext rx h r elementsMap appState st = Inr st'"
proof -
  obtain ctx cache where st: "st = (ctx, cache)" by (cases st)
  from generateElementWithCanvas_ok[of h r ext rx cache elementsMap appState, OF d]
  obtain entry cache'
    where g: "generateElementWithCanvas ext rx h cache r elementsMap appState = Inr (entry, cache')"
    by (metis surj_pair)
  from d have nf: "\<not> (el_type (h r) = ''magicframe'' \<or> el_type (h r) = ''frame'')"
    using frames_not_drawable by auto
  from d have k: "el_type (h r) = ''freedraw''
      \<or> el_type (h r) = ''rectangle'' \<or> el_type (h r) = ''diamond''
      \<or> el_type (h r) = ''ellipse'' \<or> el_type (h r) = ''line''
      \<or> el_type (h r) = ''arrow'' \<or> el_type (h r) = ''image''
      \<or> el_type (h r) = ''text'' \<or> el_type (h r) = ''iframe''
      \<or> el_type (h r) = ''embeddable''"
    unfolding drawable_cases by blast
  show ?thesis
    unfolding st unconditionalRenderElement_def Let_def
    by (simp only: prod.case if_not_P[OF nf] if_P[OF k] g sum.case) blast
qed

lemma unconditionalRenderElement_ok:
  assumes "spec_recognized (el_type (h r))"
  shows "\<exists>st'. unconditionalRenderElement ext rx h r elementsMap appState st = Inr st'"
  using assms unconditionalRenderElement_frame unconditionalRenderElement_drawable
  unfolding recognized_cases by blast

lemma unconditionalRenderElement_raises:
  assumes "\<not> spec_recognized (el_type (h r))"
  shows "unconditionalRenderElement ext rx h r elementsMap appState st
           = Inl (Unimplemented_type (el_type (h r)))"
proof -
  obtain ctx cache where st: "st = (ctx, cache)" by (cases st)
  from assms have nf: "\<not> (el_type (h r) = ''magicframe'' \<or> el_type (h r) = ''frame'')"
    unfolding recognized_cases by blast
  from assms have k: "\<not> (el_type (h r) = ''freedraw''
      \<or> el_type (h r) = ''rectangle'' \<or> el_type (h r) = ''diamond''
      \<or> el_type (h r) = ''ellipse'' \<or> el_type (h r) = ''line''
      \<or> el_type (h r) = ''arrow'' \<or> el_type (h r) = ''image''
      \<or> el_type (h r) = ''text'' \<or> el_type (h r) = ''iframe''
      \<or> el_type (h r) = ''embeddable'')"
    unfolding recognized_cases drawable_cases by blast
  show ?thesis
    unfolding st unconditionalRenderElement_def Let_def
    by (simp only: prod.case if_not_P[OF nf] if_not_P[OF k])
qed

text \<open>
  Claim C8. For an element whose type is not one of the twelve recognized kinds, the draw
  dispatch raises \<^verbatim>\<open>Unimplemented type\<close>: \<open>unconditionalRenderElement\<close> does, and so
  does \<open>drawElementOnCanvas\<close>. For every recognized kind \<open>unconditionalRenderElement\<close>
  does not raise, and \<open>drawElementOnCanvas\<close> does not raise for the recognized kinds that
  the dispatch passes on to it, which are all but the two frame kinds.
\<close>

theorem draw_dispatch:
  "(\<not> spec_recognized (el_type (h r)) \<longrightarrow>
      unconditionalRenderElement ext rx h r elementsMap appState st
        = Inl (Unimplemented_type (el_type (h r)))
      \<and> drawElementOnCanvas rx r (h r) = Inl (Unimplemented_type (el_type (h r))))
   \<and> (spec_recognized (el_type (h r)) \<longrightarrow>
      (\<exists>st'. unconditionalRenderElement ext rx h r elementsMap appState st = Inr st'))
   \<and> (spec_recognized (el_type (h r)) \<and> el_type (h r) \<noteq> ''frame''
        \<and> el_type (h r) \<noteq> ''magicframe'' \<longrightarrow>
      (\<exists>content. drawElementOnCanvas rx r (h r) = Inr content))"
proof (intro conjI impI)
  assume n: "\<not> spec_recognized (el_type (h r))"
  then show "unconditionalRenderElement ext rx h r elementsMap appState st
        = Inl (Unimplemented_type (el_type (h r)))"
    by (rule unconditionalRenderElement_raises)
  from n have "\<not> drawable_on_canvas (el_type (h r))"
    unfolding recognized_cases by blast
  then show "drawElementOnCanvas rx r (h r) = Inl (Unimplemented_type (el_type (h r)))"
    by (rule drawElementOnCanvas_raises)
next
  assume "spec_recognized (el_type (h r))"
  then show "\<exists>st'. unconditionalRenderElement ext rx h r elementsMap appState st = Inr st'"
    by (rule unconditionalRenderElement_ok)
next
  assume "spec_recognized (el_type (h r)) \<and> el_type (h r) \<noteq> ''frame''
        \<and> el_type (h r) \<noteq> ''magicframe''"
  then have "drawable_on_canvas (el_type (h r))"
    unfolding recognized_cases by blast
  then show "\<exists>content. drawElementOnCanvas rx r (h r) = Inr content"
    by (rule drawElementOnCanvas_ok)
qed

theorem draw_dispatch_witness:
  "unconditionalRenderElement exampleBoundsExt exampleRenderExt
       (singleton (exampleElement ''selection'' 0 0 10 10)) 0 Map.empty exampleAppState
       ([], Map.empty) = Inl (Unimplemented_type ''selection'')
   \<and> (\<exists>st'. unconditionalRenderElement exampleBoundsExt exampleRenderExt
       (singleton (exampleElement ''frame'' 0 0 10 10)) 0 Map.empty exampleAppState
       ([], Map.empty) = Inr st')
   \<and> (\<exists>content. drawElementOnCanvas exampleRenderExt 0
         (singleton (exampleElement ''ellipse'' 0 0 10 10) 0) = Inr content)"
proof -
  have a: "\<not> spec_recognized (el_type (singleton (exampleElement ''selection'' 0 0 10 10) 0))"
    by (simp add: singleton_def exampleElement_def spec_recognized_def)
  have b: "spec_recognized (el_type (singleton (exampleElement ''frame'' 0 0 10 10) 0))"
    by (simp add: singleton_def exampleElement_def spec_recognized_def)
  have c: "spec_recognized (el_type (singleton (exampleElement ''ellipse'' 0 0 10 10) 0))
      \<and> el_type (singleton (exampleElement ''ellipse'' 0 0 10 10) 0) \<noteq> ''frame''
      \<and> el_type (singleton (exampleElement ''ellipse'' 0 0 10 10) 0) \<noteq> ''magicframe''"
    by (simp add: singleton_def exampleElement_def spec_recognized_def)
  have t: "el_type (singleton (exampleElement ''selection'' 0 0 10 10) 0) = ''selection''"
    by (simp add: singleton_def exampleElement_def)
  from a draw_dispatch [of "singleton (exampleElement ''selection'' 0 0 10 10)" 0
      exampleBoundsExt exampleRenderExt Map.empty exampleAppState "([], Map.empty)"]
  have 1: "unconditionalRenderElement exampleBoundsExt exampleRenderExt
       (singleton (exampleElement ''selection'' 0 0 10 10)) 0 Map.empty exampleAppState
       ([], Map.empty) = Inl (Unimplemented_type ''selection'')"
    unfolding t by blast
  from b draw_dispatch [of "singleton (exampleElement ''frame'' 0 0 10 10)" 0
      exampleBoundsExt exampleRenderExt Map.empty exampleAppState "([], Map.empty)"]
  have 2: "\<exists>st'. unconditionalRenderElement exampleBoundsExt exampleRenderExt
       (singleton (exampleElement ''frame'' 0 0 10 10)) 0 Map.empty exampleAppState
       ([], Map.empty) = Inr st'"
    by blast
  from c draw_dispatch [of "singleton (exampleElement ''ellipse'' 0 0 10 10)" 0
      exampleBoundsExt exampleRenderExt Map.empty exampleAppState "([], Map.empty)"]
  have 3: "\<exists>content. drawElementOnCanvas exampleRenderExt 0
         (singleton (exampleElement ''ellipse'' 0 0 10 10) 0) = Inr content"
    by blast
  from 1 2 3 show ?thesis by blast
qed

subsection \<open>Clipping-mask accumulation\<close>

text \<open>
  A call of \<open>renderElement\<close> on a mask-tagged element that does not bring the count to
  the declared size only stores the member.
\<close>

lemma renderElement_accumulate:
  assumes "maskTag (h r) = Some (clippingMaskId, cmGroupLength)"
    and "accumulated = (case maskedElementsMap st clippingMaskId of
                          Some members \<Rightarrow> members | None \<Rightarrow> []) @ [r]"
    and "length accumulated \<noteq> cmGroupLength"
  shows "renderElement ext rx h r elementsMap appState st =
           Inr (st\<lparr>maskedElementsMap := (maskedElementsMap st)(clippingMaskId \<mapsto> accumulated)\<rparr>)"
  using assms by (simp add: renderElement_def Let_def)


text \<open>
  When a member of the completed batch raises, the call raises: the main context is as it
  was, and the entry of the batch stays in the map, sorted.
\<close>

lemma renderElement_raises:
  assumes tag: "maskTag (h r) = Some (clippingMaskId, cmGroupLength)"
    and acc: "accumulated = (case maskedElementsMap st clippingMaskId of
                          Some members \<Rightarrow> members | None \<Rightarrow> []) @ [r]"
    and len: "length accumulated = cmGroupLength"
    and rm: "renderMasked ext rx h elementsMap appState cmGroupLength 0
               (sortByIndex rx h accumulated) ([], rasterCache st) = Inl (err, (tempCanvas, cache'))"
  shows "renderElement ext rx h r elementsMap appState st =
           Inl (err, st\<lparr>maskedElementsMap :=
                          (maskedElementsMap st)(clippingMaskId \<mapsto> sortByIndex rx h accumulated),
                        rasterCache := cache'\<rparr>)"
proof -
  have ne: "length accumulated \<noteq> 0" unfolding acc by simp
  show ?thesis
    unfolding renderElement_def Let_def tag option.case prod.case acc[symmetric]
    using ne len rm by simp
qed








subsection \<open>The crop rectangle set by \<^verbatim>\<open>actionCropImage\<close>\<close>

lemma crop_perform:
  assumes "el_type (h r) = ''image''" and "el_cropProperties (h r) = Some old"
  shows "actionCropImage_perform h (r # others) elements =
     Inr (h(r := (h r)
            \<lparr>el_akhonRenderKoraUchit := Some True,
             el_isRenderCropWindow := Some True,
             el_isCroppedImage := Some True,
             el_cropProperties := Some
               \<lparr>crop_x = (if crop_x old \<noteq> 0 then crop_x old else 0.1 * el_width (h r)),
                crop_y = (if crop_y old \<noteq> 0 then crop_y old else 0.1 * el_height (h r)),
                crop_width = (if crop_width old \<noteq> 0 then crop_width old else 0.8 * el_width (h r)),
                crop_height = (if crop_height old \<noteq> 0 then crop_height old
                               else 0.8 * el_height (h r))\<rparr>\<rparr>),
          (case getElementIndex h elements (el_id (h r)) of
             Some i \<Rightarrow> elements[i := r] | None \<Rightarrow> elements),
          Some (el_id (h r)))"
  using assms by (simp add: actionCropImage_perform_def Let_def)

text \<open>
  What \<^verbatim>\<open>actionCropImage\<close> does to the crop rectangle of an image in the two cases where
  the test \<^verbatim>\<open>c ? c : default\<close> reads every coordinate as meant. When no prior coordinate
  is set, the result is the default rectangle \<open>x = 0.1 width\<close>, \<open>y = 0.1 height\<close>,
  \<open>width = 0.8 width\<close>, \<open>height = 0.8 height\<close>, strictly inside the box of the element for
  positive width and height. When no prior coordinate is 0, the rectangle is kept.
\<close>

lemma crop_image_cases:
  assumes "el_type (h r) = ''image''" and "el_cropProperties (h r) = Some old"
  shows "\<exists>h' nextElements new.
      actionCropImage_perform h (r # others) elements = Inr (h', nextElements, Some (el_id (h r)))
      \<and> el_cropProperties (h' r) = Some new
      \<and> el_width (h' r) = el_width (h r) \<and> el_height (h' r) = el_height (h r)
      \<and> (crop_x old = 0 \<and> crop_y old = 0 \<and> crop_width old = 0 \<and> crop_height old = 0 \<longrightarrow>
          new = \<lparr>crop_x = 0.1 * el_width (h r), crop_y = 0.1 * el_height (h r),
                 crop_width = 0.8 * el_width (h r), crop_height = 0.8 * el_height (h r)\<rparr>
          \<and> (0 < el_width (h r) \<and> 0 < el_height (h r) \<longrightarrow>
               0 < crop_x new \<and> 0 < crop_y new
               \<and> crop_x new + crop_width new < el_width (h' r)
               \<and> crop_y new + crop_height new < el_height (h' r)
               \<and> spec_cropContained (h' r) new))
      \<and> (crop_x old \<noteq> 0 \<and> crop_y old \<noteq> 0 \<and> crop_width old \<noteq> 0 \<and> crop_height old \<noteq> 0 \<longrightarrow>
          new = old
          \<and> (spec_cropContained (h' r) new \<longleftrightarrow> spec_cropContained (h r) old))"
proof -
  define new where "new =
     \<lparr>crop_x = (if crop_x old \<noteq> 0 then crop_x old else 0.1 * el_width (h r)),
      crop_y = (if crop_y old \<noteq> 0 then crop_y old else 0.1 * el_height (h r)),
      crop_width = (if crop_width old \<noteq> 0 then crop_width old else 0.8 * el_width (h r)),
      crop_height = (if crop_height old \<noteq> 0 then crop_height old else 0.8 * el_height (h r))\<rparr>"
  define h' where "h' = h(r := (h r)
            \<lparr>el_akhonRenderKoraUchit := Some True,
             el_isRenderCropWindow := Some True,
             el_isCroppedImage := Some True,
             el_cropProperties := Some new\<rparr>)"
  define nextElements where "nextElements =
     (case getElementIndex h elements (el_id (h r)) of
             Some i \<Rightarrow> elements[i := r] | None \<Rightarrow> elements)"
  have p: "actionCropImage_perform h (r # others) elements
      = Inr (h', nextElements, Some (el_id (h r)))"
    unfolding h'_def new_def nextElements_def
    using assms by (rule crop_perform)
  have c: "el_cropProperties (h' r) = Some new"
    and w: "el_width (h' r) = el_width (h r)" and hg: "el_height (h' r) = el_height (h r)"
    by (simp_all add: h'_def)
  have unset: "crop_x old = 0 \<and> crop_y old = 0 \<and> crop_width old = 0 \<and> crop_height old = 0 \<longrightarrow>
          new = \<lparr>crop_x = 0.1 * el_width (h r), crop_y = 0.1 * el_height (h r),
                 crop_width = 0.8 * el_width (h r), crop_height = 0.8 * el_height (h r)\<rparr>
          \<and> (0 < el_width (h r) \<and> 0 < el_height (h r) \<longrightarrow>
               0 < crop_x new \<and> 0 < crop_y new
               \<and> crop_x new + crop_width new < el_width (h' r)
               \<and> crop_y new + crop_height new < el_height (h' r)
               \<and> spec_cropContained (h' r) new)"
    by (simp add: spec_cropContained_def new_def w hg)
  have kept: "crop_x old \<noteq> 0 \<and> crop_y old \<noteq> 0 \<and> crop_width old \<noteq> 0 \<and> crop_height old \<noteq> 0 \<longrightarrow>
          new = old
          \<and> (spec_cropContained (h' r) new \<longleftrightarrow> spec_cropContained (h r) old)"
    by (simp add: spec_cropContained_def new_def w hg)
  from p c w hg unset kept show ?thesis by blast
qed

lemma exampleImage_fields:
  "el_type (singleton (exampleImage c) r) = ''image''"
  "el_cropProperties (singleton (exampleImage c) r) = Some c"
  "el_width (singleton (exampleImage c) r) = 100"
  "el_height (singleton (exampleImage c) r) = 100"
  "el_id (singleton (exampleImage c) r) = ''a''"
  by (simp_all add: singleton_def exampleImage_def exampleElement_def)

text \<open>
  Claim C9: the crop rectangle that \<^verbatim>\<open>actionCropImage\<close> leaves is contained in
  \<open>[0, 0, width, height]\<close>. The code breaks the claim for an image of 100 by 100 whose prior
  crop rectangle is the whole image, \<open>[0, 0, 100, 100]\<close>, a rectangle that is contained in
  the box: \<open>x\<close> and \<open>y\<close> are 0, the test \<^verbatim>\<open>c ? c : default\<close> takes them for unset and
  gives them their defaults while the width and the height are kept, and the result
  \<open>[10, 10, 100, 100]\<close> reaches beyond the box.
\<close>

theorem crop_image_rectangle:
  "spec_cropContained (exampleImage fullCrop) fullCrop
   \<and> map_sum id (\<lambda>(h', nextElements, lastCropImageId).
                    (el_cropProperties (h' 0), nextElements, lastCropImageId))
        (actionCropImage_perform (singleton (exampleImage fullCrop)) [0] [0])
       = Inr (Some \<lparr>crop_x = 10, crop_y = 10, crop_width = 100, crop_height = 100\<rparr>,
              [0], Some ''a'')
   \<and> \<not> spec_cropContained (exampleImage fullCrop)
         \<lparr>crop_x = 10, crop_y = 10, crop_width = 100, crop_height = 100\<rparr>"
proof -
  have "actionCropImage_perform (singleton (exampleImage fullCrop)) [0] [0] =
     Inr ((singleton (exampleImage fullCrop))(0 := (singleton (exampleImage fullCrop) 0)
            \<lparr>el_akhonRenderKoraUchit := Some True,
             el_isRenderCropWindow := Some True,
             el_isCroppedImage := Some True,
             el_cropProperties := Some
               \<lparr>crop_x = 10, crop_y = 10, crop_width = 100, crop_height = 100\<rparr>\<rparr>),
          [0], Some ''a'')"
    unfolding crop_perform[where h = "singleton (exampleImage fullCrop)" and r = 0
        and old = fullCrop, OF exampleImage_fields(1) exampleImage_fields(2)]
    by (simp add: exampleImage_fields fullCrop_def getElementIndex_def)
  then show ?thesis
    by (simp add: spec_cropContained_def fullCrop_def exampleImage_def exampleElement_def)
qed

subsection \<open>The tags set by \<^verbatim>\<open>actionMakeClippingMask\<close>\<close>

lemma lastIndexWhere_None: "lastIndexWhere P xs = None \<Longrightarrow> filter P xs = []"
  by (induction xs) (auto split: option.splits if_splits)

lemma lastIndexWhere_Some: "lastIndexWhere P xs = Some i \<Longrightarrow> filter P (drop (Suc i) xs) = []"
proof (induction xs arbitrary: i)
  case Nil
  then show ?case by simp
next
  case (Cons x xs)
  show ?case
  proof (cases "lastIndexWhere P xs")
    case None
    with Cons.prems have "i = 0" by (simp split: if_splits)
    with None show ?thesis by (simp add: lastIndexWhere_None)
  next
    case (Some j)
    with Cons.prems have "i = Suc j" by simp
    with Cons.IH[OF Some] show ?thesis by simp
  qed
qed

lemma sync_members:
  "map maskProperties (filter (\<lambda>e. isElementInGroup e g)
       (map (\<lambda>(i, element). element\<lparr>el_index := f i\<rparr>) (enumerate k xs)))
   = map maskProperties (filter (\<lambda>e. isElementInGroup e g) xs)"
  by (induction xs arbitrary: k) (simp_all add: isElementInGroup_def maskProperties_def)

lemma tagged_members:
  assumes "\<forall>e \<in> set xs. isElementInGroup e g"
  shows "filter (\<lambda>e. isElementInGroup e g)
       (map (\<lambda>(Index, e). e\<lparr>el_isMakeClippingMask := True, el_clippingMaskId := Some c,
                               el_cmGroupLength := Some n, el_cmeIndex := Some (Index + 1)\<rparr>)
            (enumerate k xs))
     = map (\<lambda>(Index, e). e\<lparr>el_isMakeClippingMask := True, el_clippingMaskId := Some c,
                               el_cmGroupLength := Some n, el_cmeIndex := Some (Index + 1)\<rparr>)
            (enumerate k xs)"
  using assms
  by (induction xs arbitrary: k) (simp_all add: isElementInGroup_def)

lemma tagged_properties:
  "map maskProperties
       (map (\<lambda>(Index, e). e\<lparr>el_isMakeClippingMask := True, el_clippingMaskId := Some c,
                               el_cmGroupLength := Some n, el_cmeIndex := Some (Index + 1)\<rparr>)
            (enumerate k xs))
     = map (\<lambda>i. (True, Some c, Some n, Some (i + 1))) [k..<k + length xs]"
proof (induction xs arbitrary: k)
  case Nil
  show ?case by simp
next
  case (Cons x xs)
  have "[k..<k + length (x # xs)] = k # [Suc k..<Suc k + length xs]"
    by (subst upt_rec) simp
  with Cons.IH[of "Suc k"] show ?case
    by (simp add: maskProperties_def)
qed

lemma captured_result:
  "(if A then NoChange else if B then NoChange else Captured X) = Captured result \<Longrightarrow> result = X"
  by (simp split: if_splits)

lemma captured_members:
  assumes "actionMakeClippingMask_perform gx elements = Captured result"
  shows "map maskProperties (getElementsInGroup result (gx_newGroupId gx))
     = map (\<lambda>i. (True, Some (gx_clippingMaskId gx),
                   Some (length (getElementsInGroup result (gx_newGroupId gx))), Some (i + 1)))
           [0..<length (getElementsInGroup result (gx_newGroupId gx))]"
proof -
  define g where "g = gx_newGroupId gx"
  define nextElements where "nextElements =
               map (\<lambda>element.
                      if el_id element \<notin> set (map el_id (gx_selectedElements gx)) then element
                      else newElementWith gx element
                             (addToGroup gx (el_groupIds element) (gx_newGroupId gx)
                                (gx_editingGroupId gx)))
                   elements"
  define inGroup where "inGroup = getElementsInGroup nextElements g"
  define n where "n = length inGroup"
  define tagged where "tagged =
               map (\<lambda>(Index, elementInGroup).
                      elementInGroup\<lparr>el_isMakeClippingMask := True,
                                     el_clippingMaskId := Some (gx_clippingMaskId gx),
                                     el_cmGroupLength := Some n,
                                     el_cmeIndex := Some (Index + 1)\<rparr>)
                   (enumerate 0 inGroup)"
  define lastIdx where "lastIdx = lastIndexWhere (\<lambda>element. isElementInGroup element g) nextElements"
  define after where "after = (case lastIdx of Some i \<Rightarrow> drop (i + 1) nextElements
                | None \<Rightarrow> nextElements)"
  define before where "before = filter (\<lambda>updatedElement. \<not> isElementInGroup updatedElement g)
                 (case lastIdx of Some i \<Rightarrow> take i nextElements
                  | None \<Rightarrow> butlast nextElements)"
  have result: "result = syncMovedIndices gx (before @ tagged @ after)"
    unfolding before_def after_def lastIdx_def tagged_def n_def inGroup_def nextElements_def g_def
    by (rule captured_result[OF assms[unfolded actionMakeClippingMask_perform_def Let_def]])
  have fb: "filter (\<lambda>e. isElementInGroup e g) before = []"
    by (simp add: before_def)
  have fa: "filter (\<lambda>e. isElementInGroup e g) after = []"
  proof (cases lastIdx)
    case None
    then have "lastIndexWhere (\<lambda>element. isElementInGroup element g) nextElements = None"
      by (simp add: lastIdx_def)
    then have "filter (\<lambda>e. isElementInGroup e g) nextElements = []"
      by (rule lastIndexWhere_None)
    with None show ?thesis by (simp add: after_def)
  next
    case (Some i)
    then have "lastIndexWhere (\<lambda>element. isElementInGroup element g) nextElements = Some i"
      by (simp add: lastIdx_def)
    then have "filter (\<lambda>e. isElementInGroup e g) (drop (Suc i) nextElements) = []"
      by (rule lastIndexWhere_Some)
    with Some show ?thesis by (simp add: after_def)
  qed
  have "\<forall>e \<in> set inGroup. isElementInGroup e g"
    by (simp add: inGroup_def getElementsInGroup_def)
  then have ft: "filter (\<lambda>e. isElementInGroup e g) tagged = tagged"
    unfolding tagged_def by (rule tagged_members)
  have "map maskProperties (getElementsInGroup result g)
      = map maskProperties (filter (\<lambda>e. isElementInGroup e g) (before @ tagged @ after))"
    unfolding result getElementsInGroup_def syncMovedIndices_def by (rule sync_members)
  also have "\<dots> = map maskProperties tagged"
    by (simp add: fb fa ft)
  also have "\<dots> = map (\<lambda>i. (True, Some (gx_clippingMaskId gx), Some n, Some (i + 1))) [0..<0 + length inGroup]"
    unfolding tagged_def by (rule tagged_properties)
  finally have m: "map maskProperties (getElementsInGroup result g)
      = map (\<lambda>i. (True, Some (gx_clippingMaskId gx), Some n, Some (i + 1))) [0..<n]"
    by (simp add: n_def)
  have "length (map maskProperties (getElementsInGroup result g)) = length [0..<n]"
    unfolding m by (simp only: length_map)
  then have "length (getElementsInGroup result g) = n"
    by simp
  with m show ?thesis by (simp add: g_def)
qed

text \<open>
  Claim C10. When \<^verbatim>\<open>actionMakeClippingMask\<close> captures a result, the elements of the new
  group in the returned list all have \<^verbatim>\<open>isMakeClippingMask\<close> set, carry the generated
  \<^verbatim>\<open>clippingMaskId\<close>, have \<^verbatim>\<open>cmGroupLength\<close> equal to the number of elements of the
  group, and have the \<^verbatim>\<open>cmeIndex\<close> values 1, 2, ..., n in the order of the list.
\<close>

theorem clipping_mask_group_tags:
  assumes "actionMakeClippingMask_perform gx elements = Captured result"
    and "members = getElementsInGroup result (gx_newGroupId gx)"
  shows "map el_cmeIndex members = map (\<lambda>i. Some (i + 1)) [0..<length members]
     \<and> (\<forall>member \<in> set members.
           el_isMakeClippingMask member
           \<and> el_clippingMaskId member = Some (gx_clippingMaskId gx)
           \<and> el_cmGroupLength member = Some (length members))"
proof -
  have m: "map maskProperties members
     = map (\<lambda>i. (True, Some (gx_clippingMaskId gx), Some (length members), Some (i + 1)))
           [0..<length members]"
    unfolding assms(2) using assms(1) by (rule captured_members)
  have "map el_cmeIndex members = map (\<lambda>p. snd (snd (snd p))) (map maskProperties members)"
    by (simp add: maskProperties_def)
  also have "\<dots> = map (\<lambda>i. Some (i + 1)) [0..<length members]"
    unfolding m by simp
  finally have idx: "map el_cmeIndex members = map (\<lambda>i. Some (i + 1)) [0..<length members]" .
  have "\<forall>p \<in> set (map maskProperties members).
          fst p \<and> fst (snd p) = Some (gx_clippingMaskId gx)
          \<and> fst (snd (snd p)) = Some (length members)"
    unfolding m by simp
  then have "\<forall>member \<in> set members.
           el_isMakeClippingMask member
           \<and> el_clippingMaskId member = Some (gx_clippingMaskId gx)
           \<and> el_cmGroupLength member = Some (length members)"
    by (simp add: maskProperties_def)
  with idx show ?thesis by blast
qed

lemma example_perform:
  "actionMakeClippingMask_perform exampleGroupExt exampleShapes =
     Captured
       [(exampleElement ''rectangle'' 5 5 10 10)\<lparr>el_id := ''b''\<rparr>,
        (exampleElement ''rectangle'' 0 0 10 10)
          \<lparr>el_groupIds := [''g''], el_isMakeClippingMask := True,
           el_clippingMaskId := Some ''m'', el_cmGroupLength := Some 2, el_cmeIndex := Some 1\<rparr>,
        (exampleElement ''rectangle'' 9 9 10 10)
          \<lparr>el_id := ''c'', el_groupIds := [''g''], el_isMakeClippingMask := True,
           el_clippingMaskId := Some ''m'', el_cmGroupLength := Some 2, el_cmeIndex := Some 2\<rparr>]"
  by (simp add: actionMakeClippingMask_perform_def exampleGroupExt_def exampleShapes_def
      exampleElement_def getElementsInGroup_def isElementInGroup_def syncMovedIndices_def
      Let_def enumerate_eq_zip)

theorem clipping_mask_group_tags_witness:
  "\<exists>result. actionMakeClippingMask_perform exampleGroupExt exampleShapes = Captured result
     \<and> map el_id (getElementsInGroup result ''g'') = [''a'', ''c'']
     \<and> map el_cmeIndex (getElementsInGroup result ''g'') = [Some 1, Some 2]"
proof -
  define result where "result =
       [(exampleElement ''rectangle'' 5 5 10 10)\<lparr>el_id := ''b''\<rparr>,
        (exampleElement ''rectangle'' 0 0 10 10)
          \<lparr>el_groupIds := [''g''], el_isMakeClippingMask := True,
           el_clippingMaskId := Some ''m'', el_cmGroupLength := Some 2, el_cmeIndex := Some 1\<rparr>,
        (exampleElement ''rectangle'' 9 9 10 10)
          \<lparr>el_id := ''c'', el_groupIds := [''g''], el_isMakeClippingMask := True,
           el_clippingMaskId := Some ''m'', el_cmGroupLength := Some 2, el_cmeIndex := Some 2\<rparr>]"
  have p: "actionMakeClippingMask_perform exampleGroupExt exampleShapes = Captured result"
    unfolding result_def by (rule example_perform)
  have g: "gx_newGroupId exampleGroupExt = ''g''"
    by (simp add: exampleGroupExt_def)
  have ids: "map el_id (getElementsInGroup result ''g'') = [''a'', ''c'']"
    by (simp add: result_def getElementsInGroup_def isElementInGroup_def exampleElement_def)
  then have "length (map el_id (getElementsInGroup result ''g'')) = 2"
    by simp
  then have len: "length (getElementsInGroup result ''g'') = 2"
    by simp
  have u: "[0..<2] = [0, Suc 0]"
    by (simp add: upt_rec numeral_2_eq_2)
  from clipping_mask_group_tags [OF p, of "getElementsInGroup result ''g''"] g
  have "map el_cmeIndex (getElementsInGroup result ''g'')
      = map (\<lambda>i. Some (i + 1)) [0..<length (getElementsInGroup result ''g'')]"
    by simp
  then have cm: "map el_cmeIndex (getElementsInGroup result ''g'') = [Some 1, Some 2]"
    unfolding len u by simp
  from p ids cm show ?thesis
    by (intro exI[of _ result] conjI)
qed

end
